theory Spec2Isabelle
  imports Complex_Main "HOL-Library.AList"
begin

section \<open>Rapid Photo Downloader: the download orchestrator of \<^verbatim>\<open>raphodo/rapid.py\<close>\<close>

text \<open>
  The theory embeds the orchestration logic of \<^verbatim>\<open>RapidWindow\<close> and \<^verbatim>\<open>JobCode\<close>.
  The window object becomes a record that every slot takes and returns. A Python
  exception that leaves a slot is the value \<open>Inl (e, w)\<close>, where \<open>w\<close> is the window as
  it was when the exception was raised. Dictionaries are association
  lists in insertion order. What the slots send to worker processes, to the
  notification service and to the thumbnail model is appended to the field \<open>out\<close>.
  What the operating system and the presentation layer answer is read from a record
  of type \<open>environment\<close>. Calls that only repaint or resize widgets
  (\<^verbatim>\<open>updateSourceButton\<close>, \<^verbatim>\<open>resizeDeviceView\<close>, \<^verbatim>\<open>setDownloadActionSensitivity\<close>,
  \<^verbatim>\<open>updateDeviceScan\<close>, the progress bar) and logging calls have no counterpart.
\<close>

subsection \<open>Enumerations and payloads\<close>

datatype py_error = AttributeError | KeyError | AssertionError | IndexError | TypeError

definition then_do :: "'e + 'a \<Rightarrow> ('a \<Rightarrow> 'e + 'b) \<Rightarrow> 'e + 'b" where
  "then_do m f = (case m of Inl e \<Rightarrow> Inl e | Inr x \<Rightarrow> f x)"

datatype FileType = photo | video

datatype BackupLocationType = photos | videos | photos_and_videos

datatype DeviceType = camera | volume | path

text \<open>
  \<^verbatim>\<open>constants.DeviceState\<close> is not among the sources. \<^verbatim>\<open>rapid.py\<close> names the members
  \<open>scanned\<close> and \<open>downloading\<close>; \<open>scanning\<close> is the state of a device whose scan
  worker has been started.
\<close>

datatype DeviceState = scanning | scanned | downloading

datatype DownloadStatus =
  not_downloaded | download_pending | downloaded | downloaded_with_warning | download_failed

datatype CameraErrorCode = locked | inaccessible

datatype RenameAndMoveStatus = download_started | download_completed

datatype MessageBoxRole = AcceptRole | RejectRole

record RPDFile =
  unique_id :: string
  scan_id :: int
  file_type :: FileType
  status :: DownloadStatus

record DownloadStats =
  no_photos :: int
  no_videos :: int
  photos_size_in_bytes :: int
  videos_size_in_bytes :: int

record DownloadTypes =
  downloading_photos :: bool
  downloading_videos :: bool

record DownloadFiles =
  files :: "(int \<times> RPDFile list) list"
  download_types :: DownloadTypes
  download_stats :: "(int \<times> DownloadStats) list"
  camera_access_needed :: "(int \<times> bool) list"

record Device =
  device_type :: DeviceType
  device_path :: string
  camera_model :: string
  camera_port :: string
  display_name :: string
  file_type_counter :: "(FileType \<times> int) list"
  file_size_sum :: "(FileType \<times> int) list"
  storage_space :: "int list"

record BackupDevice =
  mount :: "string option"
  backup_type :: BackupLocationType

record ScanResults =
  sr_rpd_files :: "RPDFile list option"
  sr_file_type_counter :: "(FileType \<times> int) list"
  sr_file_size_sum :: "(FileType \<times> int) list"
  sr_scan_id :: int
  sr_error_code :: "CameraErrorCode option"
  sr_optimal_display_name :: string
  sr_storage_space :: "int list"

record CopyFilesArguments =
  cfa_scan_id :: int
  cfa_device :: Device
  cfa_photo_download_folder :: "string option"
  cfa_video_download_folder :: "string option"
  cfa_files :: "RPDFile list"
  cfa_verify_file :: bool
  cfa_generate_thumbnails :: bool

record BackupFileData =
  bfd_rpd_file :: RPDFile
  bfd_move_succeeded :: bool
  bfd_do_backup :: bool
  bfd_path_suffix :: "string option"
  bfd_backup_duplicate_overwrite :: bool
  bfd_verify_file :: bool
  bfd_download_count :: int
  bfd_save_fdo_thumbnails :: bool

text \<open>
  The text of a status bar message is not modelled; a time message keeps the number
  of seconds that its text is formatted from. \<open>BlankMessage\<close> is the empty string.
\<close>

datatype status_text =
    BasicStatus
  | BlankMessage
  | About1Second
  | AboutSeconds int
  | About1Minute
  | AboutMinutes int

datatype dialog_result = Accepted string bool | Rejected

datatype action =
    StartScanWorker int
  | StopScanWorker int
  | ResumeScanWorker int
  | StartCopyWorker int CopyFilesArguments
  | StopCopyWorker int
  | RenameMessage RenameAndMoveStatus
  | RenameFile RPDFile int bool
  | RemoveTree string
  | PauseCopyWorkers
  | BackupFile int BackupFileData
  | AddBackupWorker int string
  | OffloadWork
  | UnmountCamera string string
  | ThumbnailAddFile RPDFile bool
  | ThumbnailClearAll int
  | ThumbnailMarkDownloadPending "(int \<times> RPDFile list) list"
  | ThumbnailUpdateStatusPostDownload RPDFile
  | ThumbnailReceived RPDFile
  | ThumbnailGenerate int
  | EnablePrefsAndRefresh bool
  | NotifyDownloadedFromDevice int
  | NotifyDownloadComplete
  | ShowMessage status_text
  | OpenJobCodeDialog
  | RejectPrompt int
  | UpdateDeviceNameAndStorage int
  | Quit

subsection \<open>The environment and the preferences\<close>

record environment =
  isdir :: "string \<Rightarrow> bool"
  access_w :: "string \<Rightarrow> bool"
  mountPaths :: "string list"
  mount_valid_and_ready :: "string \<Rightarrow> bool"
  mount_display_name :: "string \<Rightarrow> string"
  has_non_empty_dcim_folder :: "string \<Rightarrow> bool"
  home_dir :: string
  now :: nat
  gvfsControlsMounts :: bool
  cameraMountPoint :: "string \<Rightarrow> string \<Rightarrow> string option"
  getFilesMarkedForDownload :: "int option \<Rightarrow> DownloadFiles"
  terminateThumbnailGeneration :: "int \<Rightarrow> bool"
  markThumbnailsNeeded :: "RPDFile list \<Rightarrow> bool"
  clearAll :: "int \<Rightarrow> bool"
  getNoFilesRemaining :: "int \<Rightarrow> int"
  filesRemainToDownload :: bool
  check_for_update :: "rat option"

record Preferences =
  backup_files :: bool
  backup_device_autodetection :: bool
  photo_backup_identifier :: string
  video_backup_identifier :: string
  backup_photo_location :: string
  backup_video_location :: string
  photo_download_folder :: string
  video_download_folder :: string
  job_codes :: "string list"
  remember_job_code :: bool
  move :: bool
  auto_unmount :: bool
  auto_exit :: bool
  auto_exit_force :: bool
  generate_thumbnails :: bool
  verify_file :: bool
  backup_duplicate_overwrite :: bool
  save_fdo_thumbnails :: bool
  device_autodetection :: bool
  device_without_dcim_autodetection :: bool
  auto_download_upon_device_insertion :: bool
  path_blacklist :: "string list"
  path_whitelist :: "string list"

subsection \<open>Backup destinations\<close>

text \<open>
  Python's \<^verbatim>\<open>os.path.join\<close> for two components on POSIX: an absolute second
  component replaces the first; otherwise a separator is put between them unless the
  first is empty or already ends in one.
\<close>

definition os_path_join :: "string \<Rightarrow> string \<Rightarrow> string" where
  "os_path_join a b =
     (if take 1 b = ''/'' then b
      else if a = [] \<or> last a = CHR ''/'' then a @ b
      else a @ ''/'' @ b)"

definition manualBackupPathAvailable :: "environment \<Rightarrow> string \<Rightarrow> bool" where
  "manualBackupPathAvailable env p = access_w env p"

definition isBackupPath :: "environment \<Rightarrow> Preferences \<Rightarrow> string \<Rightarrow> BackupLocationType option" where
  "isBackupPath env pr p =
     (if backup_files pr then
        (if backup_device_autodetection pr then
           (let photo_path = os_path_join p (photo_backup_identifier pr);
                p_backup = (isdir env photo_path \<and> access_w env photo_path);
                video_path = os_path_join p (video_backup_identifier pr);
                v_backup = (isdir env video_path \<and> access_w env video_path)
            in if p_backup \<and> v_backup then Some photos_and_videos
               else if p_backup then Some photos
               else if v_backup then Some videos
               else None)
         else if p = backup_photo_location pr then
           (if manualBackupPathAvailable env p then Some photos else None)
         else if p = backup_video_location pr then
           (if manualBackupPathAvailable env p then Some videos else None)
         else None)
      else None)"

text \<open>
  Modelled from the spec: the class \<^verbatim>\<open>BackupDeviceCollection\<close> of \<^verbatim>\<open>devices.py\<close>,
  which is not among the sources. The spec keys the destinations by path, one entry
  per distinct path, and has the resolver keep counts of the photo-capable and of the
  video-capable destinations. Each entry carries the identifier of its backup worker,
  given out in order of registration.
\<close>

record BackupDeviceCollection =
  bd_devices :: "(string \<times> BackupDevice \<times> int) list"
  bd_next_device_id :: int

definition bd_contains :: "BackupDeviceCollection \<Rightarrow> string \<Rightarrow> bool" where
  "bd_contains c p = (map_of (bd_devices c) p \<noteq> None)"

definition bd_setitem :: "BackupDeviceCollection \<Rightarrow> string \<Rightarrow> BackupDevice \<Rightarrow> BackupDeviceCollection" where
  "bd_setitem c p d =
     (case map_of (bd_devices c) p of
        Some (old, i) \<Rightarrow> c\<lparr>bd_devices := AList.update p (d, i) (bd_devices c)\<rparr>
      | None \<Rightarrow> c\<lparr>bd_devices := bd_devices c @ [(p, (d, bd_next_device_id c))],
                  bd_next_device_id := bd_next_device_id c + 1\<rparr>)"

definition backs_up :: "BackupLocationType \<Rightarrow> FileType \<Rightarrow> bool" where
  "backs_up t ft =
     (t = photos_and_videos \<or> (ft = photo \<and> t = photos) \<or> (ft = video \<and> t = videos))"

definition no_backup_devices :: "BackupDeviceCollection \<Rightarrow> FileType \<Rightarrow> nat" where
  "no_backup_devices c ft =
     length (filter (\<lambda>(p, d, i). backs_up (backup_type d) ft) (bd_devices c))"

definition no_photo_backup_devices :: "BackupDeviceCollection \<Rightarrow> nat" where
  "no_photo_backup_devices c = no_backup_devices c photo"

definition no_video_backup_devices :: "BackupDeviceCollection \<Rightarrow> nat" where
  "no_video_backup_devices c = no_backup_devices c video"

definition backup_possible :: "BackupDeviceCollection \<Rightarrow> FileType \<Rightarrow> bool" where
  "backup_possible c ft = (0 < no_backup_devices c ft)"

definition multiple_backup_devices :: "BackupDeviceCollection \<Rightarrow> FileType \<Rightarrow> bool" where
  "multiple_backup_devices c ft = (1 < no_backup_devices c ft)"

subsection \<open>The progress tracker\<close>

definition get0 :: "('k \<times> 'v::zero) list \<Rightarrow> 'k \<Rightarrow> 'v" where
  "get0 xs k = (case map_of xs k of None \<Rightarrow> 0 | Some v \<Rightarrow> v)"

text \<open>
  Modelled from the spec: the class \<^verbatim>\<open>DownloadTracker\<close> of \<^verbatim>\<open>downloadtracker.py\<close>,
  which is not among the sources. Only what the orchestrator's decisions read is kept.
  The spec has the backup results of a file counted (count tracked, not just a
  boolean) against the number of destinations for its type, which
  \<^verbatim>\<open>set_no_backup_devices\<close> hands over. The spec's files pending backup completion
  are counted per device: \<^verbatim>\<open>init_stats\<close> fixes how many backups a device's download
  needs and \<^verbatim>\<open>file_backed_up\<close> counts them off. A key never written reads as 0.
  The file counters (downloaded, failed, warned) are the list \<open>files_finished\<close>.
\<close>

record DownloadTracker =
  dt_no_photo_backup_devices :: nat
  dt_no_video_backup_devices :: nat
  backups_performed_by_unique_id :: "string \<Rightarrow> nat"
  backups_performed_by_scan_id :: "(int \<times> int) list"
  no_backups_to_perform_by_scan_id :: "(int \<times> int) list"
  no_files_in_download_by_scan_id :: "(int \<times> int) list"
  download_count_for_file_by_unique_id :: "string \<Rightarrow> int"
  download_count_by_scan_id :: "(int \<times> int) list"
  total_bytes_copied_by_scan_id :: "(int \<times> int) list"
  total_bytes_backed_up_by_scan_id :: "(int \<times> int) list"
  file_types_present_by_scan_id :: "(int \<times> (FileType \<times> int) list) list"
  files_finished :: "(int \<times> FileType \<times> DownloadStatus) list"
  auto_delete :: "(int \<times> RPDFile) list"

definition set_no_backup_devices :: "DownloadTracker \<Rightarrow> nat \<Rightarrow> nat \<Rightarrow> DownloadTracker" where
  "set_no_backup_devices t np nv =
     t\<lparr>dt_no_photo_backup_devices := np, dt_no_video_backup_devices := nv\<rparr>"

definition init_stats :: "DownloadTracker \<Rightarrow> int \<Rightarrow> DownloadStats \<Rightarrow> DownloadTracker" where
  "init_stats t sid stats =
     t\<lparr>no_files_in_download_by_scan_id :=
           AList.update sid (no_photos stats + no_videos stats) (no_files_in_download_by_scan_id t),
       no_backups_to_perform_by_scan_id :=
           AList.update sid
             (no_photos stats * int (dt_no_photo_backup_devices t) +
              no_videos stats * int (dt_no_video_backup_devices t))
             (no_backups_to_perform_by_scan_id t),
       backups_performed_by_scan_id := AList.update sid 0 (backups_performed_by_scan_id t),
       total_bytes_copied_by_scan_id := AList.update sid 0 (total_bytes_copied_by_scan_id t),
       total_bytes_backed_up_by_scan_id := AList.update sid 0 (total_bytes_backed_up_by_scan_id t)\<rparr>"



definition all_files_backed_up :: "DownloadTracker \<Rightarrow> int option \<Rightarrow> bool" where
  "all_files_backed_up t sid_opt =
     (case sid_opt of
        None \<Rightarrow>
          list_all (\<lambda>(sid, n). get0 (backups_performed_by_scan_id t) sid = n)
            (no_backups_to_perform_by_scan_id t)
      | Some sid \<Rightarrow>
          get0 (no_backups_to_perform_by_scan_id t) sid = get0 (backups_performed_by_scan_id t) sid)"

definition file_downloaded_increment ::
    "DownloadTracker \<Rightarrow> int \<Rightarrow> FileType \<Rightarrow> DownloadStatus \<Rightarrow> DownloadTracker" where
  "file_downloaded_increment t sid ft st = t\<lparr>files_finished := files_finished t @ [(sid, ft, st)]\<rparr>"

definition no_errors_or_warnings :: "DownloadTracker \<Rightarrow> bool" where
  "no_errors_or_warnings t = list_all (\<lambda>(sid, ft, st). st = downloaded) (files_finished t)"

definition purge_all :: "DownloadTracker \<Rightarrow> DownloadTracker" where
  "purge_all t =
     t\<lparr>backups_performed_by_unique_id := (\<lambda>uid. 0),
       backups_performed_by_scan_id := [],
       no_backups_to_perform_by_scan_id := [],
       no_files_in_download_by_scan_id := [],
       download_count_for_file_by_unique_id := (\<lambda>uid. 0),
       download_count_by_scan_id := [],
       total_bytes_copied_by_scan_id := [],
       total_bytes_backed_up_by_scan_id := [],
       files_finished := [],
       auto_delete := []\<rparr>"

text \<open>
  Modelled from the spec: the classes \<^verbatim>\<open>TimeRemaining\<close> and \<^verbatim>\<open>TimeCheck\<close> of
  \<^verbatim>\<open>downloadtracker.py\<close>, which are not among the sources. Per device the tracker
  holds the bytes to transfer and the bytes transferred. The remaining-time figure is
  the bytes outstanding divided by the most recent rate, in seconds; there is no
  figure without a positive rate. The rate is computed from the clock when a sample
  is accepted, so the sampler's verdict is an input: \<open>None\<close> when no sample is
  accepted, \<open>Some r\<close> with the new rate \<open>r\<close> (bytes per second) otherwise.
\<close>

record TimeForDownload =
  tfd_size :: int
  tfd_downloaded :: int

definition TimeRemaining_update ::
    "(int \<times> TimeForDownload) list \<Rightarrow> int \<Rightarrow> int \<Rightarrow> (int \<times> TimeForDownload) list" where
  "TimeRemaining_update tr sid chunk =
     map (\<lambda>(k, t). if k = sid then (k, t\<lparr>tfd_downloaded := tfd_downloaded t + chunk\<rparr>) else (k, t)) tr"

definition bytes_outstanding :: "(int \<times> TimeForDownload) list \<Rightarrow> int" where
  "bytes_outstanding tr = sum_list (map (\<lambda>(k, t). tfd_size t - tfd_downloaded t) tr)"

definition time_remaining_figure :: "(int \<times> TimeForDownload) list \<Rightarrow> rat \<Rightarrow> rat option" where
  "time_remaining_figure tr r =
     (if 0 < r then Some (of_int (bytes_outstanding tr) / r) else None)"

subsection \<open>The window\<close>

record RapidWindow =
  prefs :: Preferences
  job_code :: string
  need_job_code_for_naming :: bool
  prompting_for_job_code :: bool
  job_code_dialogs :: nat
  devices :: "(int \<times> Device) list"
  next_scan_id :: int
  deviceModel :: "(int \<times> DeviceState) list"
  thisComputerModel :: "(int \<times> DeviceState) list"
  backup_devices :: BackupDeviceCollection
  download_tracker :: DownloadTracker
  time_remaining :: "(int \<times> TimeForDownload) list"
  active_downloads_by_scan_id :: "int list"
  temp_dirs_by_scan_id :: "(int \<times> string list) list"
  scan_workers :: "int list"
  copyfiles_workers :: "int list"
  prompting_for_user_action :: "int list"
  auto_start_is_on :: bool
  display_summary_notification :: bool
  download_start_time :: "nat option"
  download_files :: "DownloadFiles option"
  camera_unmounts_needed :: "(string \<times> string) list"
  download_action_is_download :: bool
  basic_status_message :: "status_text option"
  out :: "action list"

definition emit :: "RapidWindow \<Rightarrow> action list \<Rightarrow> RapidWindow" where
  "emit s as = s\<lparr>out := out s @ as\<rparr>"

text \<open>
  An exception that leaves a slot, with the window as the slot has left it. A lookup
  that fails is raised in the window \<open>s\<close> of the caller by \<open>raising s\<close>;
  \<open>window_after\<close> is the window a slot leaves behind, however it ends.
\<close>

type_synonym raised = "py_error \<times> RapidWindow"

definition raising :: "RapidWindow \<Rightarrow> py_error + 'a \<Rightarrow> raised + 'a" where
  "raising s m = (case m of Inl e \<Rightarrow> Inl (e, s) | Inr x \<Rightarrow> Inr x)"

definition window_after :: "raised + RapidWindow \<Rightarrow> RapidWindow" where
  "window_after r = (case r of Inl (e, w) \<Rightarrow> w | Inr w \<Rightarrow> w)"

datatype DeviceModelRef = deviceModelRef | thisComputerModelRef

definition mapModel :: "RapidWindow \<Rightarrow> int \<Rightarrow> py_error + DeviceModelRef" where
  "mapModel s sid =
     (case map_of (devices s) sid of
        None \<Rightarrow> Inl KeyError
      | Some d \<Rightarrow>
          Inr (case device_type d of
                 path \<Rightarrow> thisComputerModelRef
               | camera \<Rightarrow> deviceModelRef
               | volume \<Rightarrow> deviceModelRef))"

definition setDeviceState :: "RapidWindow \<Rightarrow> DeviceModelRef \<Rightarrow> int \<Rightarrow> DeviceState \<Rightarrow> RapidWindow" where
  "setDeviceState s m sid st =
     (case m of
        deviceModelRef \<Rightarrow> s\<lparr>deviceModel := AList.update sid st (deviceModel s)\<rparr>
      | thisComputerModelRef \<Rightarrow> s\<lparr>thisComputerModel := AList.update sid st (thisComputerModel s)\<rparr>)"

definition model_removeDevice :: "RapidWindow \<Rightarrow> DeviceModelRef \<Rightarrow> int \<Rightarrow> RapidWindow" where
  "model_removeDevice s m sid =
     (case m of
        deviceModelRef \<Rightarrow> s\<lparr>deviceModel := AList.delete sid (deviceModel s)\<rparr>
      | thisComputerModelRef \<Rightarrow> s\<lparr>thisComputerModel := AList.delete sid (thisComputerModel s)\<rparr>)"

definition device_state :: "RapidWindow \<Rightarrow> int \<Rightarrow> DeviceState option" where
  "device_state s sid =
     (case mapModel s sid of
        Inl e \<Rightarrow> None
      | Inr deviceModelRef \<Rightarrow> map_of (deviceModel s) sid
      | Inr thisComputerModelRef \<Rightarrow> map_of (thisComputerModel s) sid)"

subsection \<open>Checks made before a download starts\<close>

text \<open>
  \<^verbatim>\<open>logError\<close> has the body \<^verbatim>\<open>pass\<close>. Three places of the class call
  \<^verbatim>\<open>self.log_error\<close> instead, a name that neither \<^verbatim>\<open>RapidWindow\<close> nor its base class
  defines: the call raises \<^verbatim>\<open>AttributeError\<close>.
\<close>

definition logError :: "RapidWindow \<Rightarrow> RapidWindow" where
  "logError s = s"

definition log_error :: "RapidWindow \<Rightarrow> raised + RapidWindow" where
  "log_error s = Inl (AttributeError, s)"

text \<open>\<^verbatim>\<open>isValidDownloadDir\<close> with \<^verbatim>\<open>show_error_in_log=False\<close>, its default.\<close>

definition isValidDownloadDir :: "environment \<Rightarrow> string \<Rightarrow> bool" where
  "isValidDownloadDir env p =
     (if \<not> isdir env p then False else if \<not> access_w env p then False else True)"

text \<open>\<^verbatim>\<open>isValidDownloadDir\<close> with \<^verbatim>\<open>show_error_in_log=True\<close>.\<close>

definition isValidDownloadDir_show_error :: "environment \<Rightarrow> RapidWindow \<Rightarrow> string \<Rightarrow> raised + bool" where
  "isValidDownloadDir_show_error env s p =
     (if \<not> isdir env p then then_do (log_error s) (\<lambda>s'. Inr False)
      else if \<not> access_w env p then then_do (log_error s) (\<lambda>s'. Inr False)
      else Inr True)"

definition invalidDownloadFolders :: "environment \<Rightarrow> Preferences \<Rightarrow> DownloadTypes \<Rightarrow> string list" where
  "invalidDownloadFolders env pr wanted =
     (if downloading_photos wanted \<and> \<not> isValidDownloadDir env (photo_download_folder pr)
      then [photo_download_folder pr] else []) @
     (if downloading_videos wanted \<and> \<not> isValidDownloadDir env (video_download_folder pr)
      then [video_download_folder pr] else [])"

text \<open>The result is \<^verbatim>\<open>None\<close> or \<^verbatim>\<open>BackupMissing(photo, video)\<close>.\<close>

definition backupDestinationsMissing :: "RapidWindow \<Rightarrow> DownloadTypes \<Rightarrow> (bool \<times> bool) option" where
  "backupDestinationsMissing s wanted =
     (if backup_files (prefs s) \<and> backup_device_autodetection (prefs s) then
        (let photo_missing =
               (downloading_photos wanted \<and> \<not> backup_possible (backup_devices s) photo);
             video_missing =
               (downloading_videos wanted \<and> \<not> backup_possible (backup_devices s) video)
         in if \<not> (photo_missing \<or> video_missing) then None
            else Some (photo_missing, video_missing))
      else None)"

definition downloadIsRunning :: "RapidWindow \<Rightarrow> bool" where
  "downloadIsRunning s =
     (if length (active_downloads_by_scan_id s) = 0 then
        (if backup_files (prefs s) then
           (if all_files_backed_up (download_tracker s) None then False else True)
         else False)
      else True)"

subsection \<open>Starting the copy workers\<close>

text \<open>
  The bookkeeping of \<^verbatim>\<open>downloadFiles\<close>: the device's state, the tracker's
  statistics, the bytes to transfer, the set of active downloads and the flag for
  the summary notification.
\<close>

definition downloadFiles_register ::
    "RapidWindow \<Rightarrow> DeviceModelRef \<Rightarrow> int \<Rightarrow> DownloadStats \<Rightarrow> RapidWindow" where
  "downloadFiles_register s m sid stats =
     (let s1 = setDeviceState s m sid downloading;
          s2 = s1\<lparr>download_tracker := init_stats (download_tracker s1) sid stats\<rparr>;
          download_size =
            photos_size_in_bytes stats + videos_size_in_bytes stats +
            (if backup_files (prefs s2) then
               int (no_photo_backup_devices (backup_devices s2)) * photos_size_in_bytes stats +
               int (no_video_backup_devices (backup_devices s2)) * videos_size_in_bytes stats
             else 0);
          s3 = s2\<lparr>time_remaining :=
                    AList.update sid \<lparr>tfd_size = download_size, tfd_downloaded = 0\<rparr> (time_remaining s2),
                  active_downloads_by_scan_id := List.insert sid (active_downloads_by_scan_id s2)\<rparr>
      in if 1 < length (active_downloads_by_scan_id s3)
         then s3\<lparr>display_summary_notification := True\<rparr> else s3)"

definition downloadFiles ::
    "environment \<Rightarrow> RapidWindow \<Rightarrow> RPDFile list \<Rightarrow> int \<Rightarrow> DownloadStats \<Rightarrow> bool \<Rightarrow> raised + RapidWindow" where
  "downloadFiles env s fs sid stats generate =
     then_do (raising s (mapModel s sid)) (\<lambda>m.
       let photo_folder = (if 0 < no_photos stats then Some (photo_download_folder (prefs s)) else None);
           video_folder = (if 0 < no_videos stats then Some (video_download_folder (prefs s)) else None);
           s4 = downloadFiles_register s m sid stats;
           generate' = (if auto_start_is_on s4 \<and> generate_thumbnails (prefs s4) then True else generate)
       in case map_of (devices s4) sid of
            None \<Rightarrow> Inl (KeyError, s4)
          | Some device \<Rightarrow>
              Inr (emit (s4\<lparr>copyfiles_workers := List.insert sid (copyfiles_workers s4)\<rparr>)
                     [StartCopyWorker sid
                        \<lparr>cfa_scan_id = sid, cfa_device = device,
                         cfa_photo_download_folder = photo_folder,
                         cfa_video_download_folder = video_folder,
                         cfa_files = fs, cfa_verify_file = verify_file (prefs s4),
                         cfa_generate_thumbnails = generate'\<rparr>]))"

text \<open>The loop \<^verbatim>\<open>for scan_id in download_files.files\<close> of \<^verbatim>\<open>startDownloadPhase2\<close>.\<close>

fun downloadFiles_each ::
    "environment \<Rightarrow> DownloadFiles \<Rightarrow> RapidWindow \<Rightarrow> (int \<times> RPDFile list) list \<Rightarrow> raised + RapidWindow" where
  "downloadFiles_each env df s [] = Inr s"
| "downloadFiles_each env df s ((sid, fs) # rest) =
     (let generate = (if terminateThumbnailGeneration env sid then markThumbnailsNeeded env fs else False)
      in case map_of (download_stats df) sid of
           None \<Rightarrow> Inl (KeyError, s)
         | Some stats \<Rightarrow>
             then_do (downloadFiles env s fs sid stats generate)
               (\<lambda>s'. downloadFiles_each env df s' rest))"

definition startDownloadPhase2 :: "environment \<Rightarrow> RapidWindow \<Rightarrow> raised + RapidWindow" where
  "startDownloadPhase2 env s =
     (case download_files s of
        None \<Rightarrow> Inl (AttributeError, s)
      | Some df \<Rightarrow>
          (let invalid_dirs = invalidDownloadFolders env (prefs s) (download_types df)
           in if invalid_dirs \<noteq> [] then log_error s
              else
                (let s0 = (case backupDestinationsMissing s (download_types df) of
                             None \<Rightarrow> s
                           | Some missing \<Rightarrow> logError s);
                     s1 = (case download_start_time s0 of
                             None \<Rightarrow> s0\<lparr>download_start_time := Some (now env)\<rparr>
                           | Some t \<Rightarrow> s0);
                     s2 = emit s1 [ThumbnailMarkDownloadPending (files df),
                                   EnablePrefsAndRefresh False,
                                   RenameMessage download_started]
                 in then_do (downloadFiles_each env df s2 (files df))
                      (\<lambda>s3. Inr (s3\<lparr>download_action_is_download := False\<rparr>)))))"

text \<open>
  The first loop of \<^verbatim>\<open>startDownload\<close>: the cameras that a desktop service has
  mounted and that must be unmounted before their files can be read.
\<close>

fun cameras_to_unmount_for ::
    "environment \<Rightarrow> RapidWindow \<Rightarrow> (int \<times> bool) list \<Rightarrow> (string \<times> string) list \<Rightarrow>
     py_error + (string \<times> string) list" where
  "cameras_to_unmount_for env s [] acc = Inr acc"
| "cameras_to_unmount_for env s ((sid, needed) # rest) acc =
     (if needed then
        (case map_of (devices s) sid of
           None \<Rightarrow> Inl KeyError
         | Some device \<Rightarrow>
             (case cameraMountPoint env (camera_model device) (camera_port device) of
                None \<Rightarrow> cameras_to_unmount_for env s rest acc
              | Some mount_point \<Rightarrow>
                  cameras_to_unmount_for env s rest
                    (List.insert (camera_model device, camera_port device) acc)))
      else cameras_to_unmount_for env s rest acc)"

definition startDownload :: "environment \<Rightarrow> RapidWindow \<Rightarrow> int option \<Rightarrow> raised + RapidWindow" where
  "startDownload env s sid_opt =
     (let df = getFilesMarkedForDownload env sid_opt;
          s1 = s\<lparr>download_files := Some df, camera_unmounts_needed := []\<rparr>
      in if gvfsControlsMounts env then
           then_do (raising s1 (cameras_to_unmount_for env s1 (camera_access_needed df) [])) (\<lambda>needed.
             let s2 = s1\<lparr>camera_unmounts_needed := needed\<rparr>
             in if 0 < length needed
                then Inr (emit s2 (map (\<lambda>(model, port). UnmountCamera model port) needed))
                else startDownloadPhase2 env s2)
         else startDownloadPhase2 env s1)"

subsection \<open>The job code prompt\<close>

text \<open>
  \<^verbatim>\<open>get_job_code\<close> runs a modal dialog: \<^verbatim>\<open>dialog.exec()\<close> returns when the user
  closes the dialog, and until then the event loop keeps delivering worker messages
  to the window's slots. The method is therefore two steps: \<open>get_job_code_open\<close> is
  the method up to the call of \<^verbatim>\<open>exec\<close>, \<open>get_job_code_close\<close> what it does with
  the dialog's result. \<open>job_code_dialogs\<close> counts the dialogs that are executing.
\<close>

definition need_to_prompt_on_auto_start :: "RapidWindow \<Rightarrow> bool" where
  "need_to_prompt_on_auto_start s = (job_code s = [] \<and> need_job_code_for_naming s)"

definition need_to_prompt :: "RapidWindow \<Rightarrow> bool" where
  "need_to_prompt s = (need_job_code_for_naming s \<and> \<not> prompting_for_job_code s)"

definition get_job_code_open :: "RapidWindow \<Rightarrow> RapidWindow" where
  "get_job_code_open s =
     (if \<not> prompting_for_job_code s then
        emit (s\<lparr>prompting_for_job_code := True, job_code_dialogs := Suc (job_code_dialogs s)\<rparr>)
          [OpenJobCodeDialog]
      else s)"

text \<open>The loop \<^verbatim>\<open>while job_code in job_codes: job_codes.remove(job_code)\<close>.\<close>

function remove_job_code :: "string \<Rightarrow> string list \<Rightarrow> string list" where
  "remove_job_code c cs = (if c \<in> set cs then remove_job_code c (remove1 c cs) else cs)"
  by pat_completeness auto
termination
  by (relation "measure (\<lambda>(c, cs). length cs)") (auto simp: length_remove1 dest: length_pos_if_in_set)

declare remove_job_code.simps [simp del]

definition get_job_code_close :: "environment \<Rightarrow> RapidWindow \<Rightarrow> dialog_result \<Rightarrow> raised + RapidWindow" where
  "get_job_code_close env s r =
     (case r of
        Accepted code remember \<Rightarrow>
          (let s1 = s\<lparr>prefs := (prefs s)\<lparr>remember_job_code := remember\<rparr>,
                     prompting_for_job_code := False,
                     job_code_dialogs := job_code_dialogs s - 1\<rparr>
           in if code \<noteq> [] then
                (let s2 = (if remember
                           then s1\<lparr>prefs := (prefs s1)\<lparr>job_codes :=
                                      code # remove_job_code code (job_codes (prefs s1))\<rparr>\<rparr>
                           else s1)
                 in startDownload env (s2\<lparr>job_code := code\<rparr>) None)
              else Inr s1)
      | Rejected \<Rightarrow>
          Inr (s\<lparr>prompting_for_job_code := False, job_code_dialogs := job_code_dialogs s - 1\<rparr>))"

subsection \<open>Progress in bytes and the time remaining\<close>

text \<open>
  \<^verbatim>\<open>copyfilesDownloaded\<close>: a file has been copied; the rename worker gets it next.
\<close>

definition copyfilesDownloaded :: "RapidWindow \<Rightarrow> bool \<Rightarrow> RPDFile \<Rightarrow> int \<Rightarrow> RapidWindow" where
  "copyfilesDownloaded s download_succeeded f download_count =
     (let t = download_tracker s;
          t' = t\<lparr>download_count_for_file_by_unique_id :=
                    (download_count_for_file_by_unique_id t)(unique_id f := download_count),
                 download_count_by_scan_id :=
                    AList.update (scan_id f) download_count (download_count_by_scan_id t)\<rparr>
      in emit (s\<lparr>download_tracker := t'\<rparr>) [RenameFile f download_count download_succeeded])"

definition copyfilesBytesDownloaded :: "RapidWindow \<Rightarrow> int \<Rightarrow> int \<Rightarrow> int \<Rightarrow> raised + RapidWindow" where
  "copyfilesBytesDownloaded s sid total_downloaded chunk_downloaded =
     (if \<not> 0 \<le> total_downloaded then Inl (AssertionError, s)
      else if \<not> 0 \<le> chunk_downloaded then Inl (AssertionError, s)
      else
        Inr (s\<lparr>download_tracker := (download_tracker s)\<lparr>total_bytes_copied_by_scan_id :=
                   AList.update sid total_downloaded (total_bytes_copied_by_scan_id (download_tracker s))\<rparr>,
               time_remaining := TimeRemaining_update (time_remaining s) sid chunk_downloaded\<rparr>))"

text \<open>Python's \<^verbatim>\<open>int\<close> of a float truncates towards zero.\<close>

definition py_int :: "rat \<Rightarrow> int" where
  "py_int x = (if 0 \<le> x then \<lfloor>x\<rfloor> else \<lceil>x\<rceil>)"

text \<open>
  The chain of \<^verbatim>\<open>if secs == 0 ... elif ... else\<close> in \<^verbatim>\<open>updateTimeRemaining\<close>. The
  last message formats the float \<^verbatim>\<open>secs / 60\<close> with \<^verbatim>\<open>%i\<close> and \<^verbatim>\<open>secs % 60\<close> with
  \<^verbatim>\<open>%02i\<close>; it is kept as \<open>AboutMinutes secs\<close>, with no digits computed.
\<close>

definition time_message :: "int \<Rightarrow> status_text" where
  "time_message secs =
     (if secs = 0 then BlankMessage
      else if secs = 1 then About1Second
      else if secs < 60 then AboutSeconds secs
      else if secs = 60 then About1Minute
      else AboutMinutes secs)"

text \<open>
  \<^verbatim>\<open>updateTimeRemaining\<close>. The first argument is what \<^verbatim>\<open>time_check.check_for_update()\<close>
  answers. The test \<^verbatim>\<open>if time_remaining:\<close> is false for \<^verbatim>\<open>None\<close> and for a figure
  of zero.
\<close>

definition updateTimeRemaining :: "rat option \<Rightarrow> RapidWindow \<Rightarrow> RapidWindow" where
  "updateTimeRemaining verdict s =
     (case verdict of
        None \<Rightarrow> s
      | Some r \<Rightarrow>
          (case time_remaining_figure (time_remaining s) r of
             None \<Rightarrow> s
           | Some t \<Rightarrow> if t = 0 then s else emit s [ShowMessage (time_message (py_int t))]))"

datatype transfer_event = BytesDownloaded int int int | TimeCheck "rat option"

definition transfer_step :: "RapidWindow \<Rightarrow> transfer_event \<Rightarrow> raised + RapidWindow" where
  "transfer_step s ev =
     (case ev of
        BytesDownloaded sid total_downloaded chunk_downloaded \<Rightarrow>
          copyfilesBytesDownloaded s sid total_downloaded chunk_downloaded
      | TimeCheck verdict \<Rightarrow> Inr (updateTimeRemaining verdict s))"

fun transfer_run :: "RapidWindow \<Rightarrow> transfer_event list \<Rightarrow> raised + RapidWindow" where
  "transfer_run s [] = Inr s"
| "transfer_run s (ev # evs) = then_do (transfer_step s ev) (\<lambda>s'. transfer_run s' evs)"

text \<open>The seconds a time message stands for, and the time messages of a log in order.\<close>

fun reported_secs :: "status_text \<Rightarrow> int" where
  "reported_secs BasicStatus = 0"
| "reported_secs BlankMessage = 0"
| "reported_secs About1Second = 1"
| "reported_secs (AboutSeconds n) = n"
| "reported_secs About1Minute = 60"
| "reported_secs (AboutMinutes secs) = secs"

fun reported_times :: "action list \<Rightarrow> int list" where
  "reported_times [] = []"
| "reported_times (ShowMessage m # as) = reported_secs m # reported_times as"
| "reported_times (a # as) = reported_times as"

text \<open>The workers' finish notifications: both slots have the body \<^verbatim>\<open>pass\<close>.\<close>

definition copyfilesFinished :: "RapidWindow \<Rightarrow> RapidWindow" where
  "copyfilesFinished s = s"

definition fileRenamedAndMovedFinished :: "RapidWindow \<Rightarrow> RapidWindow" where
  "fileRenamedAndMovedFinished s = s"

subsection \<open>A file reaches the end of the pipeline\<close>

definition generateBasicStatusMessage :: "environment \<Rightarrow> RapidWindow \<Rightarrow> raised + status_text" where
  "generateBasicStatusMessage env s =
     then_do (isValidDownloadDir_show_error env s (photo_download_folder (prefs s))) (\<lambda>photo_dir.
     then_do (isValidDownloadDir_show_error env s (video_download_folder (prefs s))) (\<lambda>video_dir.
       Inr BasicStatus))"

definition displayMessageInStatusBar :: "environment \<Rightarrow> RapidWindow \<Rightarrow> bool \<Rightarrow> raised + RapidWindow" where
  "displayMessageInStatusBar env s update_only_marked =
     (if basic_status_message s = None \<or> \<not> update_only_marked then
        then_do (generateBasicStatusMessage env s) (\<lambda>m.
          Inr (emit (s\<lparr>basic_status_message := Some m\<rparr>) [ShowMessage BasicStatus]))
      else Inr (emit s [ShowMessage BasicStatus]))"

definition updateFileDownloadDeviceProgress ::
    "environment \<Rightarrow> RapidWindow \<Rightarrow> int \<Rightarrow> string \<Rightarrow> FileType \<Rightarrow> bool \<times> int" where
  "updateFileDownloadDeviceProgress env s sid uid ft =
     (let files_downloaded = download_count_for_file_by_unique_id (download_tracker s) uid;
          files_to_download = get0 (no_files_in_download_by_scan_id (download_tracker s)) sid;
          completed = (files_downloaded = files_to_download);
          completed' = (if backup_files (prefs s) \<and> completed
                        then all_files_backed_up (download_tracker s) (Some sid) else completed);
          files_remaining = (if completed' then getNoFilesRemaining env sid else 0)
      in (completed', files_remaining))"

definition cleanTempDirsForScanId :: "environment \<Rightarrow> RapidWindow \<Rightarrow> int \<Rightarrow> bool \<Rightarrow> raised + RapidWindow" where
  "cleanTempDirsForScanId env s sid remove_entry =
     (case map_of (temp_dirs_by_scan_id s) sid of
        None \<Rightarrow> Inl (KeyError, s)
      | Some ds \<Rightarrow>
          if home_dir env \<in> set ds then
            Inl (AssertionError,
                 emit s (map RemoveTree
                           (filter (isdir env) (takeWhile (\<lambda>d. d \<noteq> home_dir env) ds))))
          else
            (let s1 = emit s (map RemoveTree (filter (isdir env) ds))
             in Inr (if remove_entry
                     then s1\<lparr>temp_dirs_by_scan_id := AList.delete sid (temp_dirs_by_scan_id s1)\<rparr>
                     else s1)))"

definition notifyDownloadedFromDevice :: "RapidWindow \<Rightarrow> int \<Rightarrow> raised + RapidWindow" where
  "notifyDownloadedFromDevice s sid =
     (case map_of (devices s) sid of
        None \<Rightarrow> Inl (KeyError, s)
      | Some device \<Rightarrow> Inr (emit s [NotifyDownloadedFromDevice sid]))"

definition unmountVolume :: "RapidWindow \<Rightarrow> int \<Rightarrow> raised + RapidWindow" where
  "unmountVolume s sid =
     (case map_of (devices s) sid of
        None \<Rightarrow> Inl (KeyError, s)
      | Some device \<Rightarrow> Inr s)"

definition notifyDownloadComplete :: "RapidWindow \<Rightarrow> RapidWindow" where
  "notifyDownloadComplete s =
     (if display_summary_notification s
      then (emit s [NotifyDownloadComplete])\<lparr>display_summary_notification := False\<rparr>
      else s)"

text \<open>
  The block of \<^verbatim>\<open>fileDownloadFinished\<close> under \<^verbatim>\<open>if not self.downloadIsRunning()\<close>:
  the whole download is over.
\<close>

definition download_is_completed :: "environment \<Rightarrow> RapidWindow \<Rightarrow> raised + RapidWindow" where
  "download_is_completed env s =
     (let s1 = notifyDownloadComplete (emit s [EnablePrefsAndRefresh True]);
          s2 = emit s1 [RenameMessage download_completed];
          s3 = (if (auto_exit (prefs s2) \<and> no_errors_or_warnings (download_tracker s2))
                   \<or> auto_exit_force (prefs s2)
                then (if \<not> filesRemainToDownload env then emit s2 [Quit] else s2)
                else s2);
          s4 = s3\<lparr>download_tracker := purge_all (download_tracker s3)\<rparr>
      in then_do (displayMessageInStatusBar env s4 False) (\<lambda>s5.
           Inr (s5\<lparr>download_action_is_download := True, job_code := [],
                  download_start_time := None\<rparr>)))"

text \<open>
  The block of \<^verbatim>\<open>fileDownloadFinished\<close> under \<^verbatim>\<open>if completed\<close>: the last file of
  the device \<open>sid\<close> is done.
\<close>

definition device_is_completed :: "environment \<Rightarrow> RapidWindow \<Rightarrow> int \<Rightarrow> int \<Rightarrow> raised + RapidWindow" where
  "device_is_completed env s sid files_remaining =
     then_do (raising s (mapModel s sid)) (\<lambda>m.
     then_do (cleanTempDirsForScanId env (setDeviceState s m sid scanned) sid True) (\<lambda>s1.
       let s2 = (if move (prefs s1)
                 then s1\<lparr>download_tracker := (download_tracker s1)\<lparr>auto_delete :=
                            filter (\<lambda>(i, f). i \<noteq> sid) (auto_delete (download_tracker s1))\<rparr>\<rparr>
                 else s1)
       in if sid \<notin> set (active_downloads_by_scan_id s2) then Inl (KeyError, s2)
          else
            (let s3 = s2\<lparr>active_downloads_by_scan_id := removeAll sid (active_downloads_by_scan_id s2),
                         time_remaining := AList.delete sid (time_remaining s2)\<rparr>
             in then_do (notifyDownloadedFromDevice s3 sid) (\<lambda>s4.
                then_do (if files_remaining = 0 \<and> auto_unmount (prefs s4)
                         then unmountVolume s4 sid else Inr s4) (\<lambda>s5.
                  if \<not> downloadIsRunning s5 then download_is_completed env s5 else Inr s5)))))"

definition fileDownloadFinished :: "environment \<Rightarrow> RapidWindow \<Rightarrow> bool \<Rightarrow> RPDFile \<Rightarrow> raised + RapidWindow" where
  "fileDownloadFinished env s succeeded f =
     (let sid = scan_id f;
          s1 = (if \<not> succeeded \<and> \<not> multiple_backup_devices (backup_devices s) (file_type f)
                then logError s
                else if move (prefs s)
                then s\<lparr>download_tracker := (download_tracker s)\<lparr>auto_delete :=
                          auto_delete (download_tracker s) @ [(sid, f)]\<rparr>\<rparr>
                else s);
          s2 = emit s1 [ThumbnailUpdateStatusPostDownload f];
          s3 = s2\<lparr>download_tracker :=
                    file_downloaded_increment (download_tracker s2) sid (file_type f) (status f)\<rparr>;
          progress = updateFileDownloadDeviceProgress env s3 sid (unique_id f) (file_type f);
          s4 = (if downloadIsRunning s3 then updateTimeRemaining (check_for_update env) s3 else s3)
      in if fst progress then device_is_completed env s4 sid (snd progress) else Inr s4)"

subsection \<open>Backing a file up\<close>

text \<open>The flag \<^verbatim>\<open>do_backup\<close> that \<^verbatim>\<open>backupFile\<close> computes for one destination.\<close>

definition do_backup_to :: "BackupLocationType \<Rightarrow> FileType \<Rightarrow> bool" where
  "do_backup_to bt ft =
     (bt = photos_and_videos \<or> (ft = photo \<and> bt = photos) \<or> (ft = video \<and> bt = videos))"

definition backupFile :: "RapidWindow \<Rightarrow> RPDFile \<Rightarrow> bool \<Rightarrow> int \<Rightarrow> RapidWindow" where
  "backupFile s f move_succeeded download_count =
     (let path_suffix =
            (if backup_device_autodetection (prefs s) then
               (if file_type f = photo then Some (photo_backup_identifier (prefs s))
                else Some (video_backup_identifier (prefs s)))
             else None)
      in emit s
           (map (\<lambda>(p, d, device_id).
                   BackupFile device_id
                     \<lparr>bfd_rpd_file = f, bfd_move_succeeded = move_succeeded,
                      bfd_do_backup = do_backup_to (backup_type d) (file_type f),
                      bfd_path_suffix = path_suffix,
                      bfd_backup_duplicate_overwrite = backup_duplicate_overwrite (prefs s),
                      bfd_verify_file = verify_file (prefs s),
                      bfd_download_count = download_count,
                      bfd_save_fdo_thumbnails = save_fdo_thumbnails (prefs s)\<rparr>)
              (bd_devices (backup_devices s))))"

definition fileRenamedAndMoved ::
    "environment \<Rightarrow> RapidWindow \<Rightarrow> bool \<Rightarrow> RPDFile \<Rightarrow> int \<Rightarrow> bool \<Rightarrow> raised + RapidWindow" where
  "fileRenamedAndMoved env s move_succeeded f download_count thumbnail_is_null =
     (let s1 = (if \<not> thumbnail_is_null then emit s [ThumbnailReceived f] else s);
          s2 = (if status f = downloaded_with_warning then logError s1 else s1)
      in if backup_files (prefs s2) then
           (if backup_possible (backup_devices s2) (file_type f)
            then Inr (backupFile s2 f move_succeeded download_count)
            else fileDownloadFinished env s2 move_succeeded f)
         else fileDownloadFinished env s2 move_succeeded f)"



subsection \<open>The backup manager and its workers\<close>

text \<open>
  What a backup worker sends back, \<^verbatim>\<open>BackupResults\<close>: either a count of the bytes
  backed up so far, or the result for one file. A field that is not set is \<^verbatim>\<open>None\<close>.
\<close>

record BackupResults =
  br_scan_id :: "int option"
  br_device_id :: int
  br_total_downloaded :: "int option"
  br_chunk_downloaded :: "int option"
  br_backup_succeeded :: "bool option"
  br_do_backup :: "bool option"
  br_rpd_file :: "RPDFile option"

text \<open>The two signals of \<^verbatim>\<open>BackupManager\<close>: \<^verbatim>\<open>bytesBackedUp\<close> and \<^verbatim>\<open>message\<close>.\<close>

datatype backup_signal =
    BytesBackedUp BackupResults
  | BackupMessage int bool bool RPDFile

text \<open>
  \<^verbatim>\<open>BackupManager.process_sink_data\<close>, for one unpickled message of a worker. The
  comparison of a missing \<^verbatim>\<open>chunk_downloaded\<close> with 0 raises \<^verbatim>\<open>TypeError\<close>.
\<close>

definition process_sink_data :: "BackupResults \<Rightarrow> py_error + backup_signal" where
  "process_sink_data data =
     (case br_total_downloaded data of
        Some total_downloaded \<Rightarrow>
          (if br_scan_id data = None then Inl AssertionError
           else case br_chunk_downloaded data of
                  None \<Rightarrow> Inl TypeError
                | Some chunk_downloaded \<Rightarrow>
                    if \<not> 0 \<le> chunk_downloaded then Inl AssertionError
                    else if \<not> 0 \<le> total_downloaded then Inl AssertionError
                    else Inr (BytesBackedUp data))
      | None \<Rightarrow>
          (case br_backup_succeeded data of
             None \<Rightarrow> Inl AssertionError
           | Some backup_succeeded \<Rightarrow>
               (case br_do_backup data of
                  None \<Rightarrow> Inl AssertionError
                | Some do_backup \<Rightarrow>
                    (case br_rpd_file data of
                       None \<Rightarrow> Inl AssertionError
                     | Some rpd_file \<Rightarrow>
                         Inr (BackupMessage (br_device_id data) backup_succeeded
                                do_backup rpd_file)))))"

text \<open>The messages of the workers, taken from the sink one after the other.\<close>

fun process_sink_data_each :: "BackupResults list \<Rightarrow> py_error + backup_signal list" where
  "process_sink_data_each [] = Inr []"
| "process_sink_data_each (data # rest) =
     then_do (process_sink_data data) (\<lambda>signal.
     then_do (process_sink_data_each rest) (\<lambda>signals. Inr (signal # signals)))"

text \<open>
  What happens to one file at one destination is for the file system to decide: the
  byte counts the worker reports while it copies, as pairs of the total and the
  chunk, and whether the backup succeeded.
\<close>

record backup_outcome =
  bo_progress :: "(nat \<times> nat) list"
  bo_succeeded :: bool

text \<open>
  Modelled from the spec: the backup worker, \<^verbatim>\<open>backupfile.py\<close>, which is not among
  the sources. The spec (section 3, StageRequest / StageResult) gives the backup
  stage a request payload, the backup-file data, and a matching result; a result is
  tagged with the identifier of its owner, and the progress chunks, which carry the
  bytes transferred, are told apart from the terminal per-file results. The worker
  of destination \<open>device_id\<close> therefore answers a request with its progress chunks
  and then with one terminal result for the file of the request, which carries the
  worker's identifier, the request's \<^verbatim>\<open>do_backup\<close> flag and the outcome.
\<close>

definition backup_worker :: "backup_outcome \<Rightarrow> int \<Rightarrow> BackupFileData \<Rightarrow> BackupResults list" where
  "backup_worker outcome device_id data =
     map (\<lambda>(total_downloaded, chunk_downloaded).
            \<lparr>br_scan_id = Some (scan_id (bfd_rpd_file data)), br_device_id = device_id,
             br_total_downloaded = Some (int total_downloaded),
             br_chunk_downloaded = Some (int chunk_downloaded),
             br_backup_succeeded = None, br_do_backup = None, br_rpd_file = None\<rparr>)
         (bo_progress outcome) @
     [\<lparr>br_scan_id = None, br_device_id = device_id,
       br_total_downloaded = None, br_chunk_downloaded = None,
       br_backup_succeeded = Some (bo_succeeded outcome),
       br_do_backup = Some (bfd_do_backup data),
       br_rpd_file = Some (bfd_rpd_file data)\<rparr>]"

text \<open>
  The replies to the requests in a log: \<^verbatim>\<open>BackupManager.backup_file\<close> hands each
  request to the worker of the destination it names.
\<close>

fun backup_replies ::
    "(int \<Rightarrow> BackupFileData \<Rightarrow> backup_outcome) \<Rightarrow> action list \<Rightarrow> BackupResults list" where
  "backup_replies outcome [] = []"
| "backup_replies outcome (BackupFile device_id data # as) =
     backup_worker (outcome device_id data) device_id data @ backup_replies outcome as"
| "backup_replies outcome (a # as) = backup_replies outcome as"

subsection \<open>Devices and backup destinations come and go\<close>

text \<open>
  \<^verbatim>\<open>removeDevice\<close>. The identifier is optional because the method asserts that it
  is not \<^verbatim>\<open>None\<close>. The method never reads its parameter \<^verbatim>\<open>stop_worker\<close>.
\<close>

definition removeDevice :: "environment \<Rightarrow> RapidWindow \<Rightarrow> int option \<Rightarrow> bool \<Rightarrow> raised + RapidWindow" where
  "removeDevice env s sid_opt stop_worker =
     (case sid_opt of
        None \<Rightarrow> Inl (AssertionError, s)
      | Some sid \<Rightarrow>
          (case map_of (devices s) sid of
             None \<Rightarrow> Inr s
           | Some device \<Rightarrow>
               (let s1 = (if sid \<in> set (prompting_for_user_action s)
                          then emit s [RejectPrompt sid] else s);
                    s2 = emit s1 [ThumbnailClearAll sid];
                    s3 = (if clearAll env sid then emit s2 [OffloadWork] else s2)
                in then_do (raising s3 (mapModel s3 sid)) (\<lambda>m.
                     let s4 = model_removeDevice s3 m sid;
                         s5 = (if sid \<in> set (scan_workers s4)
                               then emit s4 [StopScanWorker sid] else s4);
                         s6 = (if sid \<in> set (copyfiles_workers s5)
                               then emit s5 [StopCopyWorker sid] else s5)
                     in Inr (s6\<lparr>devices := AList.delete sid (devices s6)\<rparr>)))))"

definition monitorPartitionChanges :: "Preferences \<Rightarrow> bool" where
  "monitorPartitionChanges pr = (device_autodetection pr \<or> backup_device_autodetection pr)"

definition scanEvenIfNoDCIM :: "Preferences \<Rightarrow> bool" where
  "scanEvenIfNoDCIM pr = (device_autodetection pr \<and> device_without_dcim_autodetection pr)"

definition partitionValid :: "environment \<Rightarrow> Preferences \<Rightarrow> string \<Rightarrow> bool" where
  "partitionValid env pr p =
     (if mount_valid_and_ready env p then
        (if p \<in> set (path_blacklist pr) \<and> scanEvenIfNoDCIM pr then False else True)
      else False)"

definition shouldScanMountPath :: "environment \<Rightarrow> Preferences \<Rightarrow> string \<Rightarrow> bool" where
  "shouldScanMountPath env pr p =
     (if device_autodetection pr then
        (if device_without_dcim_autodetection pr \<or> has_non_empty_dcim_folder env p then True
         else False)
      else False)"

text \<open>
  Modelled from the spec: the methods \<^verbatim>\<open>known_device\<close> and \<^verbatim>\<open>add_device\<close> of
  \<^verbatim>\<open>DeviceCollection\<close> in \<^verbatim>\<open>devices.py\<close>, which is not among the sources. The registry
  maps an opaque identifier, assigned at registration, to the device; a device is
  known when one of the same kind at the same path or camera port is registered.
\<close>

definition known_device :: "(int \<times> Device) list \<Rightarrow> Device \<Rightarrow> bool" where
  "known_device ds d =
     list_ex (\<lambda>(i, d'). device_type d' = device_type d \<and> device_path d' = device_path d \<and>
                         camera_model d' = camera_model d \<and> camera_port d' = camera_port d) ds"

definition startDeviceScan :: "RapidWindow \<Rightarrow> Device \<Rightarrow> raised + RapidWindow" where
  "startDeviceScan s device =
     (let sid = next_scan_id s;
          s1 = s\<lparr>devices := AList.update sid device (devices s), next_scan_id := sid + 1\<rparr>
      in then_do (raising s1 (mapModel s1 sid)) (\<lambda>m.
           let s2 = setDeviceState s1 m sid scanning
           in Inr (emit (s2\<lparr>scan_workers := List.insert sid (scan_workers s2)\<rparr>)
                     [StartScanWorker sid])))"

definition prepareNonCameraDeviceScan :: "RapidWindow \<Rightarrow> Device \<Rightarrow> raised + RapidWindow" where
  "prepareNonCameraDeviceScan s device =
     (if \<not> known_device (devices s) device then
        (if scanEvenIfNoDCIM (prefs s) \<and> device_path device \<notin> set (path_whitelist (prefs s))
         then Inr s
         else startDeviceScan s device)
      else Inr s)"

definition addDeviceToBackupManager :: "RapidWindow \<Rightarrow> string \<Rightarrow> raised + RapidWindow" where
  "addDeviceToBackupManager s p =
     (case map_of (bd_devices (backup_devices s)) p of
        None \<Rightarrow> Inl (KeyError, s)
      | Some (d, device_id) \<Rightarrow> Inr (emit s [AddBackupWorker device_id p]))"

definition partitionMounted ::
    "environment \<Rightarrow> RapidWindow \<Rightarrow> string \<Rightarrow> string list \<Rightarrow> bool \<Rightarrow> raised + RapidWindow" where
  "partitionMounted env s p iconNames canEject =
     (if p \<notin> set (mountPaths env) then Inl (AssertionError, s)
      else if monitorPartitionChanges (prefs s) then
        (if partitionValid env (prefs s) p then
           (case isBackupPath env (prefs s) p of
              Some backup_file_type \<Rightarrow>
                (if \<not> bd_contains (backup_devices s) p then
                   (let device = \<lparr>mount = Some p, backup_type = backup_file_type\<rparr>;
                        s1 = s\<lparr>backup_devices := bd_setitem (backup_devices s) p device\<rparr>
                    in then_do (addDeviceToBackupManager s1 p) (\<lambda>s2.
                         displayMessageInStatusBar env
                           (s2\<lparr>download_tracker :=
                                 set_no_backup_devices (download_tracker s2)
                                   (no_photo_backup_devices (backup_devices s2))
                                   (no_video_backup_devices (backup_devices s2))\<rparr>)
                           False))
                 else Inr s)
            | None \<Rightarrow>
                (if shouldScanMountPath env (prefs s) p then
                   prepareNonCameraDeviceScan
                     (s\<lparr>auto_start_is_on := auto_download_upon_device_insertion (prefs s)\<rparr>)
                     \<lparr>device_type = volume, device_path = p, camera_model = [], camera_port = [],
                      display_name = mount_display_name env p, file_type_counter = [],
                      file_size_sum = [], storage_space = []\<rparr>
                 else Inr s))
         else Inr s)
      else Inr s)"

definition setupManualBackup :: "RapidWindow \<Rightarrow> RapidWindow" where
  "setupManualBackup s =
     (let backup_photo = backup_photo_location (prefs s);
          backup_video = backup_video_location (prefs s)
      in if backup_photo \<noteq> backup_video then
           s\<lparr>backup_devices :=
                bd_setitem
                  (bd_setitem (backup_devices s) backup_photo \<lparr>mount = None, backup_type = photos\<rparr>)
                  backup_video \<lparr>mount = None, backup_type = videos\<rparr>\<rparr>
         else
           s\<lparr>backup_devices :=
                bd_setitem (backup_devices s) backup_photo
                  \<lparr>mount = None, backup_type = photos_and_videos\<rparr>\<rparr>)"

subsection \<open>Messages from the scan workers\<close>

text \<open>
  \<^verbatim>\<open>scanMessageReceived\<close>. The last argument is the button the user presses in
  the message box that a scan error opens.
\<close>

definition scanMessageReceived ::
    "environment \<Rightarrow> RapidWindow \<Rightarrow> ScanResults \<Rightarrow> MessageBoxRole \<Rightarrow> raised + RapidWindow" where
  "scanMessageReceived env s data role =
     (case sr_rpd_files data of
        Some rpd_files \<Rightarrow>
          (case rpd_files of
             [] \<Rightarrow> Inl (IndexError, s)
           | first # others \<Rightarrow>
               (let sid = scan_id first
                in case map_of (devices s) sid of
                     None \<Rightarrow> Inr s
                   | Some device \<Rightarrow>
                       (let device' = device\<lparr>file_type_counter := sr_file_type_counter data,
                                              file_size_sum := sr_file_size_sum data\<rparr>;
                            s1 = s\<lparr>devices := AList.update sid device' (devices s)\<rparr>
                        in Inr (emit s1
                                  (map (\<lambda>f. ThumbnailAddFile f (\<not> auto_start_is_on s1)) rpd_files)))))
      | None \<Rightarrow>
          (let sid = sr_scan_id data
           in case map_of (devices s) sid of
                None \<Rightarrow> Inr s
              | Some device \<Rightarrow>
                  (case sr_error_code data of
                     Some error_code \<Rightarrow>
                       (let s1 = s\<lparr>prompting_for_user_action :=
                                      List.insert sid (prompting_for_user_action s)\<rparr>
                        in then_do
                             (if role = AcceptRole then Inr (emit s1 [ResumeScanWorker sid])
                              else removeDevice env (emit s1 [StopScanWorker sid]) (Some sid) False)
                             (\<lambda>s2. Inr (s2\<lparr>prompting_for_user_action :=
                                             removeAll sid (prompting_for_user_action s2)\<rparr>)))
                   | None \<Rightarrow>
                       (let device' = device\<lparr>display_name := sr_optimal_display_name data,
                                              storage_space := sr_storage_space data\<rparr>
                        in Inr (emit (s\<lparr>devices := AList.update sid device' (devices s)\<rparr>)
                                  [UpdateDeviceNameAndStorage sid])))))"

text \<open>
  The end of \<^verbatim>\<open>scanFinished\<close>: thumbnails are generated, or with auto start a
  job code is asked for or the download starts.
\<close>

definition after_scan :: "environment \<Rightarrow> RapidWindow \<Rightarrow> DeviceModelRef \<Rightarrow> int \<Rightarrow> raised + RapidWindow" where
  "after_scan env s m sid =
     (if \<not> auto_start_is_on s \<and> generate_thumbnails (prefs s) then
        Inr (emit (setDeviceState s m sid scanned) [ThumbnailGenerate sid])
      else if auto_start_is_on s then
        (if need_to_prompt_on_auto_start s
         then Inr (get_job_code_open (setDeviceState s m sid scanned))
         else startDownload env s (Some sid))
      else Inr s)"

definition scanFinished :: "environment \<Rightarrow> RapidWindow \<Rightarrow> int \<Rightarrow> raised + RapidWindow" where
  "scanFinished env s sid =
     (case map_of (devices s) sid of
        None \<Rightarrow> Inr s
      | Some device \<Rightarrow>
          (let s1 = s\<lparr>download_tracker := (download_tracker s)\<lparr>file_types_present_by_scan_id :=
                         AList.update sid (file_type_counter device)
                           (file_types_present_by_scan_id (download_tracker s))\<rparr>\<rparr>
           in then_do (raising s1 (mapModel s1 sid)) (\<lambda>m.
              then_do (displayMessageInStatusBar env s1 True) (\<lambda>s2.
                after_scan env (emit s2 [OffloadWork]) m sid))))"

subsection \<open>Events that reach the job code prompt\<close>

text \<open>
  While the dialog of \<^verbatim>\<open>get_job_code\<close> is executing, the window still receives
  scan-finished events, which may ask for a job code themselves. A dialog can only
  be closed while one is executing.
\<close>

datatype job_code_event = GetJobCode | ScanFinished int | DialogClosed dialog_result

definition job_code_step :: "environment \<Rightarrow> RapidWindow \<Rightarrow> job_code_event \<Rightarrow> raised + RapidWindow" where
  "job_code_step env s ev =
     (case ev of
        GetJobCode \<Rightarrow> Inr (get_job_code_open s)
      | ScanFinished sid \<Rightarrow> scanFinished env s sid
      | DialogClosed r \<Rightarrow> (if job_code_dialogs s = 0 then Inr s else get_job_code_close env s r))"

fun job_code_run :: "environment \<Rightarrow> RapidWindow \<Rightarrow> job_code_event list \<Rightarrow> raised + RapidWindow" where
  "job_code_run env s [] = Inr s"
| "job_code_run env s (ev # evs) = then_do (job_code_step env s ev) (\<lambda>s'. job_code_run env s' evs)"

subsection \<open>Notions used to state the properties\<close>

text \<open>
  The spec's marker subfolder: the folder named by the identifier, under the path,
  exists and is writable.
\<close>

definition writable_marker :: "environment \<Rightarrow> string \<Rightarrow> string \<Rightarrow> bool" where
  "writable_marker env p ident =
     (isdir env (os_path_join p ident) \<and> access_w env (os_path_join p ident))"

definition registered_capabilities :: "RapidWindow \<Rightarrow> (string \<times> BackupLocationType) list" where
  "registered_capabilities s = map (\<lambda>(p, d, i). (p, backup_type d)) (bd_devices (backup_devices s))"

text \<open>The backup requests in a log: the worker addressed, the file and \<^verbatim>\<open>do_backup\<close>.\<close>

fun backup_requests :: "action list \<Rightarrow> (int \<times> RPDFile \<times> bool) list" where
  "backup_requests [] = []"
| "backup_requests (BackupFile device_id data # as) =
     (device_id, bfd_rpd_file data, bfd_do_backup data) # backup_requests as"
| "backup_requests (a # as) = backup_requests as"

text \<open>
  The per-file results among the signals of the backup manager: the worker that
  answered, \<^verbatim>\<open>do_backup\<close> and the file.
\<close>

fun file_results :: "backup_signal list \<Rightarrow> (int \<times> bool \<times> RPDFile) list" where
  "file_results [] = []"
| "file_results (BackupMessage device_id backup_succeeded do_backup f # signals) =
     (device_id, do_backup, f) # file_results signals"
| "file_results (BytesBackedUp data # signals) = file_results signals"

text \<open>
  The two fields of the job code prompt, the invariant that at most one dialog is
  executing and that the flag says so, and two counts over a log: the job code
  dialogs opened and the copy workers started.
\<close>

definition prompt_fields :: "RapidWindow \<Rightarrow> bool \<times> nat" where
  "prompt_fields s = (prompting_for_job_code s, job_code_dialogs s)"

definition one_prompt :: "RapidWindow \<Rightarrow> bool" where
  "one_prompt s = (job_code_dialogs s \<le> 1 \<and> (prompting_for_job_code s = (job_code_dialogs s = 1)))"

fun dialogs_opened :: "action list \<Rightarrow> nat" where
  "dialogs_opened [] = 0"
| "dialogs_opened (OpenJobCodeDialog # as) = Suc (dialogs_opened as)"
| "dialogs_opened (a # as) = dialogs_opened as"

fun copy_workers_started :: "action list \<Rightarrow> int list" where
  "copy_workers_started [] = []"
| "copy_workers_started (StartCopyWorker sid args # as) = sid # copy_workers_started as"
| "copy_workers_started (a # as) = copy_workers_started as"

text \<open>The copy workers started in the log of a result, or the exception.\<close>

definition started_by :: "raised + RapidWindow \<Rightarrow> raised + int list" where
  "started_by r = (case r of Inl e \<Rightarrow> Inl e | Inr s \<Rightarrow> Inr (copy_workers_started (out s)))"











subsection \<open>Example values\<close>

definition example_env :: environment where
  "example_env =
     \<lparr>isdir = (\<lambda>p. p \<in> set [''/d/p'', ''/d/v'', ''/pics'', ''/vids'', ''/tmp/t1'']),
      access_w = (\<lambda>p. p \<in> set [''/d/p'', ''/d/v'', ''/pics'', ''/vids'', ''/bak'']),
      mountPaths = [''/d''],
      mount_valid_and_ready = (\<lambda>p. True),
      mount_display_name = (\<lambda>p. p),
      has_non_empty_dcim_folder = (\<lambda>p. False),
      home_dir = ''/home/u'',
      now = 7,
      gvfsControlsMounts = False,
      cameraMountPoint = (\<lambda>m p. None),
      getFilesMarkedForDownload =
        (\<lambda>i. \<lparr>files = [],
              download_types = \<lparr>downloading_photos = False, downloading_videos = False\<rparr>,
              download_stats = [], camera_access_needed = []\<rparr>),
      terminateThumbnailGeneration = (\<lambda>i. False),
      markThumbnailsNeeded = (\<lambda>fs. False),
      clearAll = (\<lambda>i. False),
      getNoFilesRemaining = (\<lambda>i. 0),
      filesRemainToDownload = False,
      check_for_update = None\<rparr>"

definition example_prefs :: Preferences where
  "example_prefs =
     \<lparr>backup_files = True, backup_device_autodetection = True,
      photo_backup_identifier = ''p'', video_backup_identifier = ''v'',
      backup_photo_location = ''/bak'', backup_video_location = ''/nobak'',
      photo_download_folder = ''/pics'', video_download_folder = ''/vids'',
      job_codes = [], remember_job_code = False, move = False, auto_unmount = False,
      auto_exit = False, auto_exit_force = False, generate_thumbnails = False,
      verify_file = False, backup_duplicate_overwrite = False, save_fdo_thumbnails = False,
      device_autodetection = True, device_without_dcim_autodetection = False,
      auto_download_upon_device_insertion = False, path_blacklist = [], path_whitelist = []\<rparr>"

definition example_device :: Device where
  "example_device =
     \<lparr>device_type = volume, device_path = ''/cam'', camera_model = [], camera_port = [],
      display_name = ''cam'', file_type_counter = [], file_size_sum = [], storage_space = []\<rparr>"

definition example_tracker :: DownloadTracker where
  "example_tracker =
     \<lparr>dt_no_photo_backup_devices = 0, dt_no_video_backup_devices = 0,
      backups_performed_by_unique_id = (\<lambda>uid. 0),
      backups_performed_by_scan_id = [], no_backups_to_perform_by_scan_id = [],
      no_files_in_download_by_scan_id = [],
      download_count_for_file_by_unique_id = (\<lambda>uid. 0),
      download_count_by_scan_id = [], total_bytes_copied_by_scan_id = [],
      total_bytes_backed_up_by_scan_id = [], file_types_present_by_scan_id = [],
      files_finished = [], auto_delete = []\<rparr>"

definition example_window :: RapidWindow where
  "example_window =
     \<lparr>prefs = example_prefs, job_code = [], need_job_code_for_naming = False,
      prompting_for_job_code = False, job_code_dialogs = 0,
      devices = [(1, example_device)], next_scan_id = 2,
      deviceModel = [(1, scanned)], thisComputerModel = [],
      backup_devices = \<lparr>bd_devices = [], bd_next_device_id = 0\<rparr>,
      download_tracker = example_tracker, time_remaining = [],
      active_downloads_by_scan_id = [], temp_dirs_by_scan_id = [],
      scan_workers = [], copyfiles_workers = [], prompting_for_user_action = [],
      auto_start_is_on = False, display_summary_notification = False,
      download_start_time = None, download_files = None, camera_unmounts_needed = [],
      download_action_is_download = True, basic_status_message = None, out = []\<rparr>"

definition example_photo :: RPDFile where
  "example_photo = \<lparr>unique_id = ''a'', scan_id = 1, file_type = photo, status = downloaded\<rparr>"

definition stale_scan_result :: ScanResults where
  "stale_scan_result =
     \<lparr>sr_rpd_files = Some [example_photo\<lparr>scan_id := 5\<rparr>], sr_file_type_counter = [(photo, 1)],
      sr_file_size_sum = [(photo, 10)], sr_scan_id = 5, sr_error_code = None,
      sr_optimal_display_name = [], sr_storage_space = []\<rparr>"

definition example_backup_window :: RapidWindow where
  "example_backup_window =
     example_window\<lparr>backup_devices :=
       \<lparr>bd_devices = [(''/d'', \<lparr>mount = Some ''/d'', backup_type = photos_and_videos\<rparr>, 0),
                       (''/e'', \<lparr>mount = Some ''/e'', backup_type = videos\<rparr>, 1)],
        bd_next_device_id = 2\<rparr>,
       download_tracker := example_tracker\<lparr>dt_no_photo_backup_devices := 1,
                                           dt_no_video_backup_devices := 2\<rparr>\<rparr>"

definition example_downloading_window :: RapidWindow where
  "example_downloading_window =
     example_window\<lparr>deviceModel := [(1, downloading)],
       active_downloads_by_scan_id := [1], copyfiles_workers := [1],
       temp_dirs_by_scan_id := [(1, [''/tmp/t1''])],
       time_remaining := [(1, \<lparr>tfd_size = 20, tfd_downloaded = 10\<rparr>)],
       download_tracker := example_tracker\<lparr>no_files_in_download_by_scan_id := [(1, 2)],
         download_count_for_file_by_unique_id := (\<lambda>uid. if uid = ''a'' then 1 else 0),
         files_finished := [(1, photo, downloaded)]\<rparr>,
       prefs := example_prefs\<lparr>backup_files := False\<rparr>,
       download_action_is_download := False\<rparr>"

definition job_code_window :: RapidWindow where
  "job_code_window =
     example_window\<lparr>need_job_code_for_naming := True, auto_start_is_on := True,
       devices := [(1, example_device), (2, example_device\<lparr>device_path := ''/cam2''\<rparr>)],
       deviceModel := [(1, scanning), (2, scanning)]\<rparr>"

definition example_download :: DownloadFiles where
  "example_download =
     \<lparr>files = [(1, [example_photo])],
      download_types = \<lparr>downloading_photos = True, downloading_videos = False\<rparr>,
      download_stats = [(1, \<lparr>no_photos = 1, no_videos = 0, photos_size_in_bytes = 10,
                            videos_size_in_bytes = 0\<rparr>)],
      camera_access_needed = [(1, False)]\<rparr>"

definition missing_backup_window :: RapidWindow where
  "missing_backup_window = example_window\<lparr>download_files := Some example_download\<rparr>"




section \<open>Properties\<close>

subsection \<open>Exceptions and the window they leave\<close>

lemma raising_Inr [simp]: "raising s (Inr x) = Inr x"
  by (simp add: raising_def)

lemma raising_Inl [simp]: "raising s (Inl e) = Inl (e, s)"
  by (simp add: raising_def)

lemma raising_eq_Inr [simp]: "(raising s m = Inr x) = (m = Inr x)"
  by (cases m) simp_all

lemma window_after_Inr [simp]: "window_after (Inr w) = w"
  by (simp add: window_after_def)

lemma window_after_Inl [simp]: "window_after (Inl (e, w)) = w"
  by (simp add: window_after_def)

subsection \<open>The capability of a backup path\<close>

lemma isBackupPath_autodetect:
  assumes "backup_files pr" "backup_device_autodetection pr"
  shows "isBackupPath env pr p =
     (if writable_marker env p (photo_backup_identifier pr) \<and> writable_marker env p (video_backup_identifier pr) then Some photos_and_videos
      else if writable_marker env p (photo_backup_identifier pr) then Some photos
      else if writable_marker env p (video_backup_identifier pr) then Some videos else None)"
  using assms by (simp add: isBackupPath_def writable_marker_def Let_def)

text \<open>
  Claim C6, as the code has it. With backup enabled and autodetection on, the
  capability of a path is photos-and-videos exactly when both writable marker
  subfolders are present, the single type exactly when only that marker is present,
  and none when neither is. With backup enabled and autodetection off,
  \<^verbatim>\<open>isBackupPath\<close> answers photos for the configured photo location and videos
  for the configured video location (when it differs), each only if the path is
  writable, and never photos-and-videos. With backup disabled it answers none.
  \<^verbatim>\<open>setupManualBackup\<close> registers the two configured locations by comparing them:
  one destination for both types when they are equal, one per type otherwise.
\<close>

theorem isBackupPath_capability:
  "(backup_files pr \<and> backup_device_autodetection pr \<longrightarrow>
      (isBackupPath env pr p = Some photos_and_videos \<longleftrightarrow>
         writable_marker env p (photo_backup_identifier pr) \<and> writable_marker env p (video_backup_identifier pr)) \<and>
      (isBackupPath env pr p = Some photos \<longleftrightarrow>
         writable_marker env p (photo_backup_identifier pr) \<and> \<not> writable_marker env p (video_backup_identifier pr)) \<and>
      (isBackupPath env pr p = Some videos \<longleftrightarrow>
         \<not> writable_marker env p (photo_backup_identifier pr) \<and> writable_marker env p (video_backup_identifier pr)) \<and>
      (isBackupPath env pr p = None \<longleftrightarrow>
         \<not> writable_marker env p (photo_backup_identifier pr) \<and> \<not> writable_marker env p (video_backup_identifier pr))) \<and>
   (backup_files pr \<and> \<not> backup_device_autodetection pr \<longrightarrow>
      (isBackupPath env pr p = Some photos \<longleftrightarrow> p = backup_photo_location pr \<and> access_w env p) \<and>
      (isBackupPath env pr p = Some videos \<longleftrightarrow>
         p \<noteq> backup_photo_location pr \<and> p = backup_video_location pr \<and> access_w env p) \<and>
      isBackupPath env pr p \<noteq> Some photos_and_videos) \<and>
   (\<not> backup_files pr \<longrightarrow> isBackupPath env pr p = None) \<and>
   registered_capabilities (setupManualBackup (s\<lparr>backup_devices := \<lparr>bd_devices = [], bd_next_device_id = n\<rparr>\<rparr>)) =
     (if backup_photo_location (prefs s) \<noteq> backup_video_location (prefs s)
      then [(backup_photo_location (prefs s), photos), (backup_video_location (prefs s), videos)]
      else [(backup_photo_location (prefs s), photos_and_videos)])"
proof -
  have a: "backup_files pr \<and> backup_device_autodetection pr \<longrightarrow>
      (isBackupPath env pr p = Some photos_and_videos \<longleftrightarrow>
         writable_marker env p (photo_backup_identifier pr) \<and> writable_marker env p (video_backup_identifier pr)) \<and>
      (isBackupPath env pr p = Some photos \<longleftrightarrow>
         writable_marker env p (photo_backup_identifier pr) \<and> \<not> writable_marker env p (video_backup_identifier pr)) \<and>
      (isBackupPath env pr p = Some videos \<longleftrightarrow>
         \<not> writable_marker env p (photo_backup_identifier pr) \<and> writable_marker env p (video_backup_identifier pr)) \<and>
      (isBackupPath env pr p = None \<longleftrightarrow>
         \<not> writable_marker env p (photo_backup_identifier pr) \<and> \<not> writable_marker env p (video_backup_identifier pr))"
    by (simp add: isBackupPath_autodetect)
  have b: "backup_files pr \<and> \<not> backup_device_autodetection pr \<longrightarrow>
      (isBackupPath env pr p = Some photos \<longleftrightarrow> p = backup_photo_location pr \<and> access_w env p) \<and>
      (isBackupPath env pr p = Some videos \<longleftrightarrow>
         p \<noteq> backup_photo_location pr \<and> p = backup_video_location pr \<and> access_w env p) \<and>
      isBackupPath env pr p \<noteq> Some photos_and_videos"
    by (simp add: isBackupPath_def manualBackupPathAvailable_def)
  have c: "\<not> backup_files pr \<longrightarrow> isBackupPath env pr p = None"
    by (simp add: isBackupPath_def)
  have d: "registered_capabilities (setupManualBackup (s\<lparr>backup_devices := \<lparr>bd_devices = [], bd_next_device_id = n\<rparr>\<rparr>)) =
     (if backup_photo_location (prefs s) \<noteq> backup_video_location (prefs s)
      then [(backup_photo_location (prefs s), photos), (backup_video_location (prefs s), videos)]
      else [(backup_photo_location (prefs s), photos_and_videos)])"
    by (simp add: registered_capabilities_def setupManualBackup_def bd_setitem_def Let_def)
  from a b c d show ?thesis by blast
qed

text \<open>The three cases of the theorem at a mounted disk with both marker folders.\<close>

theorem isBackupPath_capability_witness:
  "isBackupPath example_env example_prefs ''/d'' = Some photos_and_videos \<and>
   isBackupPath example_env (example_prefs\<lparr>backup_device_autodetection := False\<rparr>) ''/bak'' = Some photos \<and>
   isBackupPath example_env (example_prefs\<lparr>backup_files := False\<rparr>) ''/d'' = None"
  using isBackupPath_capability [of example_prefs example_env "''/d''"]
    isBackupPath_capability [of "example_prefs\<lparr>backup_device_autodetection := False\<rparr>" example_env "''/bak''"]
    isBackupPath_capability [of "example_prefs\<lparr>backup_files := False\<rparr>" example_env "''/d''"]
  by (simp add: example_env_def example_prefs_def writable_marker_def os_path_join_def)

text \<open>
  Claim C6 as stated fails twice. With autodetection on and both markers writable
  the answer is none when backup is disabled. With autodetection off a path equal
  to the configured video location gets no capability when it is not writable.
\<close>

theorem isBackupPath_counterexample:
  "backup_device_autodetection (example_prefs\<lparr>backup_files := False\<rparr>) \<and>
   writable_marker example_env ''/d'' (photo_backup_identifier (example_prefs\<lparr>backup_files := False\<rparr>)) \<and>
   writable_marker example_env ''/d'' (video_backup_identifier (example_prefs\<lparr>backup_files := False\<rparr>)) \<and>
   isBackupPath example_env (example_prefs\<lparr>backup_files := False\<rparr>) ''/d'' = None \<and>
   \<not> backup_device_autodetection (example_prefs\<lparr>backup_device_autodetection := False\<rparr>) \<and>
   ''/nobak'' = backup_video_location (example_prefs\<lparr>backup_device_autodetection := False\<rparr>) \<and>
   isBackupPath example_env (example_prefs\<lparr>backup_device_autodetection := False\<rparr>) ''/nobak'' = None"
  by (simp add: isBackupPath_def example_env_def example_prefs_def writable_marker_def os_path_join_def manualBackupPathAvailable_def)

subsection \<open>Stale scan messages\<close>

text \<open>
  Claim C10. A scan result whose first file names a device that is not in the
  registry, a scan message (error or camera details) for such a device, and a
  scan-finished event for such a device are discarded: the slot returns the
  window as it was, with nothing sent to a worker or to a model.
\<close>

theorem stale_scan_events_discarded:
  "(sr_rpd_files data = Some (first # others) \<and> map_of (devices s) (scan_id first) = None \<longrightarrow>
      scanMessageReceived env s data role = Inr s) \<and>
   (sr_rpd_files data = None \<and> map_of (devices s) (sr_scan_id data) = None \<longrightarrow>
      scanMessageReceived env s data role = Inr s) \<and>
   (map_of (devices s) sid = None \<longrightarrow> scanFinished env s sid = Inr s)"
  by (simp add: scanMessageReceived_def scanFinished_def)

text \<open>
  Messages for the unregistered device 5; the same event for the registered device 1
  does change the window.
\<close>

theorem stale_scan_events_discarded_witness:
  "map_of (devices example_window) 5 = None \<and>
   scanMessageReceived example_env example_window stale_scan_result AcceptRole = Inr example_window \<and>
   scanMessageReceived example_env example_window (stale_scan_result\<lparr>sr_rpd_files := None\<rparr>) AcceptRole
     = Inr example_window \<and>
   scanFinished example_env example_window 5 = Inr example_window \<and>
   scanFinished example_env example_window 1 \<noteq> Inr example_window"
proof -
  have d: "map_of (devices example_window) 5 = None"
    by (simp add: example_window_def)
  have a: "scanMessageReceived example_env example_window stale_scan_result AcceptRole = Inr example_window"
    using stale_scan_events_discarded [of stale_scan_result "example_photo\<lparr>scan_id := 5\<rparr>" "[]" example_window example_env AcceptRole 5] d
    by (simp add: stale_scan_result_def)
  have b: "scanMessageReceived example_env example_window (stale_scan_result\<lparr>sr_rpd_files := None\<rparr>) AcceptRole
     = Inr example_window"
    using stale_scan_events_discarded [of "stale_scan_result\<lparr>sr_rpd_files := None\<rparr>" example_photo "[]" example_window example_env AcceptRole 5] d
    by (simp add: stale_scan_result_def)
  have c: "scanFinished example_env example_window 5 = Inr example_window"
    using stale_scan_events_discarded [of stale_scan_result example_photo "[]" example_window example_env AcceptRole 5] d
    by simp
  have e: "scanFinished example_env example_window 1 \<noteq> Inr example_window"
    by (simp add: scanFinished_def example_window_def example_env_def example_prefs_def
        example_device_def mapModel_def then_do_def displayMessageInStatusBar_def
        generateBasicStatusMessage_def isValidDownloadDir_show_error_def emit_def Let_def
        setDeviceState_def after_scan_def)
  from a b c d e show ?thesis by simp
qed

subsection \<open>Removing an unregistered device, mounting a registered destination\<close>

lemma startDeviceScan_frame:
  "\<exists>s'. startDeviceScan s d = Inr s' \<and> backup_devices s' = backup_devices s \<and>
        download_tracker s' = download_tracker s"
  by (simp add: startDeviceScan_def mapModel_def then_do_def Let_def update_conv'
      setDeviceState_def emit_def split: DeviceType.split DeviceModelRef.split)

lemma prepareNonCameraDeviceScan_frame:
  "\<exists>s'. prepareNonCameraDeviceScan s d = Inr s' \<and> backup_devices s' = backup_devices s \<and>
        download_tracker s' = download_tracker s"
  using startDeviceScan_frame [of s d] by (simp add: prepareNonCameraDeviceScan_def)

lemma partitionMounted_registered:
  assumes "bd_contains (backup_devices s) p" "p \<in> set (mountPaths env)"
  shows "\<exists>s'. partitionMounted env s p iconNames canEject = Inr s' \<and>
          backup_devices s' = backup_devices s \<and> download_tracker s' = download_tracker s"
proof (cases "isBackupPath env (prefs s) p")
  case None
  then show ?thesis
    using assms prepareNonCameraDeviceScan_frame
      [of "s\<lparr>auto_start_is_on := auto_download_upon_device_insertion (prefs s)\<rparr>"]
    by (simp add: partitionMounted_def)
next
  case (Some t)
  then show ?thesis using assms by (simp add: partitionMounted_def)
qed

text \<open>
  Claim C8. Removing a device whose identifier is not registered returns the window
  unchanged. A mount event for a path that is registered as a backup destination
  leaves the collection of destinations, its two counters and the tracker as they
  were; the slot fails only on its assertion that the path is a mount point. If
  the path still resolves to a capability, the whole window is unchanged.
\<close>

theorem registry_operations_idempotent:
  "(map_of (devices s) sid = None \<longrightarrow> removeDevice env s (Some sid) stop_worker = Inr s) \<and>
   (bd_contains (backup_devices s) p \<longrightarrow>
      (case partitionMounted env s p iconNames canEject of
         Inl e \<Rightarrow> p \<notin> set (mountPaths env)
       | Inr s' \<Rightarrow>
           backup_devices s' = backup_devices s \<and>
           no_photo_backup_devices (backup_devices s') = no_photo_backup_devices (backup_devices s) \<and>
           no_video_backup_devices (backup_devices s') = no_video_backup_devices (backup_devices s) \<and>
           download_tracker s' = download_tracker s)) \<and>
   (bd_contains (backup_devices s) p \<and> isBackupPath env (prefs s) p \<noteq> None \<and>
    p \<in> set (mountPaths env) \<longrightarrow>
      partitionMounted env s p iconNames canEject = Inr s)"
proof -
  have a: "map_of (devices s) sid = None \<longrightarrow> removeDevice env s (Some sid) stop_worker = Inr s"
    by (simp add: removeDevice_def)
  have b: "bd_contains (backup_devices s) p \<longrightarrow>
      (case partitionMounted env s p iconNames canEject of
         Inl e \<Rightarrow> p \<notin> set (mountPaths env)
       | Inr s' \<Rightarrow>
           backup_devices s' = backup_devices s \<and>
           no_photo_backup_devices (backup_devices s') = no_photo_backup_devices (backup_devices s) \<and>
           no_video_backup_devices (backup_devices s') = no_video_backup_devices (backup_devices s) \<and>
           download_tracker s' = download_tracker s)"
  proof (cases "p \<in> set (mountPaths env)")
    case True
    show ?thesis
    proof
      assume "bd_contains (backup_devices s) p"
      from partitionMounted_registered [OF this True, of iconNames canEject]
      obtain s' where "partitionMounted env s p iconNames canEject = Inr s'"
        "backup_devices s' = backup_devices s" "download_tracker s' = download_tracker s"
        by blast
      then show "case partitionMounted env s p iconNames canEject of
         Inl e \<Rightarrow> p \<notin> set (mountPaths env)
       | Inr s' \<Rightarrow>
           backup_devices s' = backup_devices s \<and>
           no_photo_backup_devices (backup_devices s') = no_photo_backup_devices (backup_devices s) \<and>
           no_video_backup_devices (backup_devices s') = no_video_backup_devices (backup_devices s) \<and>
           download_tracker s' = download_tracker s"
        by simp
    qed
  next
    case False
    then show ?thesis by (simp add: partitionMounted_def)
  qed
  have c: "bd_contains (backup_devices s) p \<and> isBackupPath env (prefs s) p \<noteq> None \<and>
    p \<in> set (mountPaths env) \<longrightarrow>
      partitionMounted env s p iconNames canEject = Inr s"
    by (auto simp add: partitionMounted_def)
  from a b c show ?thesis by blast
qed

text \<open>
  Device 5 is not registered and \<open>/d\<close> is a registered destination; removing the
  registered device 1 does change the window.
\<close>

theorem registry_operations_idempotent_witness:
  "map_of (devices example_backup_window) 5 = None \<and>
   removeDevice example_env example_backup_window (Some 5) True = Inr example_backup_window \<and>
   bd_contains (backup_devices example_backup_window) ''/d'' \<and>
   partitionMounted example_env example_backup_window ''/d'' [] True = Inr example_backup_window \<and>
   removeDevice example_env example_backup_window (Some 1) True \<noteq> Inr example_backup_window"
proof -
  have d: "map_of (devices example_backup_window) 5 = None"
    by (simp add: example_backup_window_def example_window_def)
  have k: "bd_contains (backup_devices example_backup_window) ''/d''"
    by (simp add: example_backup_window_def example_window_def bd_contains_def)
  have i: "isBackupPath example_env (prefs example_backup_window) ''/d'' \<noteq> None"
    by (simp add: example_backup_window_def example_window_def isBackupPath_def example_env_def
        example_prefs_def os_path_join_def)
  have m: "''/d'' \<in> set (mountPaths example_env)"
    by (simp add: example_env_def)
  have a: "removeDevice example_env example_backup_window (Some 5) True = Inr example_backup_window"
    using registry_operations_idempotent [of example_backup_window 5 example_env True "''/d''" "[]" True] d
    by simp
  have b: "partitionMounted example_env example_backup_window ''/d'' [] True = Inr example_backup_window"
    using registry_operations_idempotent [of example_backup_window 5 example_env True "''/d''" "[]" True] k i m
    by simp
  have e: "removeDevice example_env example_backup_window (Some 1) True \<noteq> Inr example_backup_window"
    by (simp add: removeDevice_def example_backup_window_def example_window_def example_env_def
        example_device_def mapModel_def then_do_def emit_def Let_def model_removeDevice_def)
  from a b d k e show ?thesis by simp
qed

subsection \<open>A worker finishes\<close>

text \<open>
  Claim C5, as the code has it. When the copy workers or the rename worker report
  that they have finished, the window does nothing: no request is sent to any
  worker, and the tracker, the device states and the set of active downloads stay
  as they are.
\<close>

theorem worker_finished_changes_nothing:
  "copyfilesFinished s = s \<and> fileRenamedAndMovedFinished s = s \<and>
   active_downloads_by_scan_id (copyfilesFinished s) = active_downloads_by_scan_id s \<and>
   downloadIsRunning (copyfilesFinished s) = downloadIsRunning s \<and>
   download_tracker (copyfilesFinished s) = download_tracker s \<and>
   out (copyfilesFinished s) = out s \<and> out (fileRenamedAndMovedFinished s) = out s"
  by (simp add: copyfilesFinished_def fileRenamedAndMovedFinished_def)

text \<open>
  Claim C5 as stated fails. Device 1 has a copy worker and two files to download, one
  of which is finished. After the worker's finish event the second file has not been
  marked (nothing is sent, the tracker has the same one finished file), the device
  is still downloading and the download still counts as running.
\<close>

theorem worker_crash_counterexample:
  "1 \<in> set (copyfiles_workers example_downloading_window) \<and>
   get0 (no_files_in_download_by_scan_id (download_tracker example_downloading_window)) 1 = 2 \<and>
   files_finished (download_tracker (copyfilesFinished example_downloading_window))
     = [(1, photo, downloaded)] \<and>
   out (copyfilesFinished example_downloading_window) = [] \<and>
   device_state (copyfilesFinished example_downloading_window) 1 = Some downloading \<and>
   downloadIsRunning (copyfilesFinished example_downloading_window)"
  by (simp add: copyfilesFinished_def example_downloading_window_def example_window_def
      example_tracker_def get0_def downloadIsRunning_def device_state_def mapModel_def
      example_device_def)

subsection \<open>Backup requests\<close>

lemma process_sink_data_each_append:
  assumes "process_sink_data_each xs = Inr a" "process_sink_data_each ys = Inr b"
  shows "process_sink_data_each (xs @ ys) = Inr (a @ b)"
  using assms
proof (induction xs arbitrary: a)
  case Nil
  then show ?case by simp
next
  case (Cons x xs)
  from Cons.prems(1) obtain sg sgs where
    "process_sink_data x = Inr sg" "process_sink_data_each xs = Inr sgs" "a = sg # sgs"
    by (auto simp: then_do_def split: sum.splits)
  with Cons.IH [OF _ Cons.prems(2)] show ?case by (simp add: then_do_def)
qed

lemma file_results_append: "file_results (a @ b) = file_results a @ file_results b"
  by (induction a rule: file_results.induct) simp_all

lemma backup_worker_signals:
  "\<exists>signals. process_sink_data_each (backup_worker outcome device_id data) = Inr signals \<and>
     file_results signals = [(device_id, bfd_do_backup data, bfd_rpd_file data)]"
proof -
  have c: "\<exists>signals. process_sink_data_each (map (\<lambda>(total_downloaded, chunk_downloaded).
            \<lparr>br_scan_id = Some (scan_id (bfd_rpd_file data)), br_device_id = device_id,
             br_total_downloaded = Some (int total_downloaded),
             br_chunk_downloaded = Some (int chunk_downloaded),
             br_backup_succeeded = None, br_do_backup = None, br_rpd_file = None\<rparr>) ps) = Inr signals \<and>
          file_results signals = []" for ps :: "(nat \<times> nat) list"
  proof (induction ps)
    case Nil
    then show ?case by simp
  next
    case (Cons p ps)
    then obtain signals where "process_sink_data_each (map (\<lambda>(total_downloaded, chunk_downloaded).
            \<lparr>br_scan_id = Some (scan_id (bfd_rpd_file data)), br_device_id = device_id,
             br_total_downloaded = Some (int total_downloaded),
             br_chunk_downloaded = Some (int chunk_downloaded),
             br_backup_succeeded = None, br_do_backup = None, br_rpd_file = None\<rparr>) ps) = Inr signals"
       "file_results signals = []" by blast
    then show ?case by (cases p) (simp add: then_do_def process_sink_data_def)
  qed
  then obtain a where a: "process_sink_data_each (map (\<lambda>(total_downloaded, chunk_downloaded).
            \<lparr>br_scan_id = Some (scan_id (bfd_rpd_file data)), br_device_id = device_id,
             br_total_downloaded = Some (int total_downloaded),
             br_chunk_downloaded = Some (int chunk_downloaded),
             br_backup_succeeded = None, br_do_backup = None, br_rpd_file = None\<rparr>) (bo_progress outcome)) = Inr a"
       "file_results a = []" by blast
  have b: "process_sink_data_each [\<lparr>br_scan_id = None, br_device_id = device_id,
       br_total_downloaded = None, br_chunk_downloaded = None,
       br_backup_succeeded = Some (bo_succeeded outcome),
       br_do_backup = Some (bfd_do_backup data),
       br_rpd_file = Some (bfd_rpd_file data)\<rparr>] =
     Inr [BackupMessage device_id (bo_succeeded outcome) (bfd_do_backup data) (bfd_rpd_file data)]"
    by (simp add: then_do_def process_sink_data_def)
  from process_sink_data_each_append [OF a(1) b] a(2) show ?thesis
    by (simp add: backup_worker_def file_results_append)
qed

lemma backup_replies_signals:
  "\<exists>signals. process_sink_data_each
       (backup_replies outcome (map (\<lambda>(p, d, device_id). BackupFile device_id (g d)) xs)) = Inr signals \<and>
     file_results signals =
       map (\<lambda>(p, d, device_id). (device_id, bfd_do_backup (g d), bfd_rpd_file (g d))) xs"
  for g :: "BackupDevice \<Rightarrow> BackupFileData" and xs :: "(string \<times> BackupDevice \<times> int) list"
proof (induction xs)
  case Nil
  then show ?case by simp
next
  case (Cons x xs)
  obtain p d device_id where x: "x = (p, d, device_id)" by (cases x)
  from Cons obtain b where b: "process_sink_data_each
       (backup_replies outcome (map (\<lambda>(p, d, device_id). BackupFile device_id (g d)) xs)) = Inr b"
     "file_results b = map (\<lambda>(p, d, device_id). (device_id, bfd_do_backup (g d), bfd_rpd_file (g d))) xs"
    by blast
  from backup_worker_signals [of "outcome device_id (g d)" device_id "g d"] obtain a where
    a: "process_sink_data_each (backup_worker (outcome device_id (g d)) device_id (g d)) = Inr a"
       "file_results a = [(device_id, bfd_do_backup (g d), bfd_rpd_file (g d))]"
    by blast
  from process_sink_data_each_append [OF a(1) b(1)] a(2) b(2) x show ?case
    by (simp add: file_results_append)
qed

lemma backup_requests_append:
  "backup_requests (a @ b) = backup_requests a @ backup_requests b"
  by (induction a rule: backup_requests.induct) simp_all

lemma backup_replies_append:
  "backup_replies outcome (a @ b) = backup_replies outcome a @ backup_replies outcome b"
  by (induction outcome a rule: backup_replies.induct) simp_all

lemma backup_requests_map:
  "backup_requests (map (\<lambda>(p, d, device_id). BackupFile device_id (g d)) xs) =
     map (\<lambda>(p, d, device_id). (device_id, bfd_rpd_file (g d), bfd_do_backup (g d))) xs"
  for g :: "BackupDevice \<Rightarrow> BackupFileData" and xs :: "(string \<times> BackupDevice \<times> int) list"
  by (induction xs) auto

lemma backupFile_requests:
  "\<exists>g :: BackupDevice \<Rightarrow> BackupFileData. (\<forall>d. bfd_rpd_file (g d) = f \<and>
             bfd_do_backup (g d) = do_backup_to (backup_type d) (file_type f)) \<and>
       backupFile s f move_succeeded download_count =
         emit s (map (\<lambda>(p, d, device_id). BackupFile device_id (g d))
                   (bd_devices (backup_devices s)))"
proof -
  define g where "g = (\<lambda>d :: BackupDevice. \<lparr>bfd_rpd_file = f, bfd_move_succeeded = move_succeeded,
                      bfd_do_backup = do_backup_to (backup_type d) (file_type f),
                      bfd_path_suffix = (if backup_device_autodetection (prefs s) then
               (if file_type f = photo then Some (photo_backup_identifier (prefs s))
                else Some (video_backup_identifier (prefs s)))
             else None),
                      bfd_backup_duplicate_overwrite = backup_duplicate_overwrite (prefs s),
                      bfd_verify_file = verify_file (prefs s),
                      bfd_download_count = download_count,
                      bfd_save_fdo_thumbnails = save_fdo_thumbnails (prefs s)\<rparr>)"
  have "backupFile s f move_succeeded download_count =
         emit s (map (\<lambda>(p, d, device_id). BackupFile device_id (g d))
                   (bd_devices (backup_devices s)))"
    by (simp add: backupFile_def g_def Let_def)
  moreover have "\<forall>d. bfd_rpd_file (g d) = f \<and>
             bfd_do_backup (g d) = do_backup_to (backup_type d) (file_type f)"
    by (simp add: g_def)
  ultimately show ?thesis by blast
qed

text \<open>
  Claim C9. When backup is enabled and some destination can back up the file's
  type, \<^verbatim>\<open>fileRenamedAndMoved\<close> sends one backup request for the file to the worker
  of every registered destination, in order of registration, with \<^verbatim>\<open>do_backup\<close>
  set exactly for the destinations whose capability covers the file's type; the
  tracker is untouched. Whatever the outcome at each destination, the backup manager
  takes the workers' replies without an exception, and the per-file results among
  its signals are one for every registered destination, for this file and with the
  \<^verbatim>\<open>do_backup\<close> of the request.
\<close>

theorem backup_request_to_every_destination:
  "backup_files (prefs s) \<and> backup_possible (backup_devices s) (file_type f) \<longrightarrow>
   (\<exists>s'. fileRenamedAndMoved env s move_succeeded f download_count thumbnail_is_null = Inr s' \<and>
      backup_requests (drop (length (out s)) (out s')) =
        map (\<lambda>(p, d, device_id). (device_id, f, do_backup_to (backup_type d) (file_type f)))
          (bd_devices (backup_devices s)) \<and>
      download_tracker s' = download_tracker s \<and>
      (\<exists>signals.
         process_sink_data_each (backup_replies outcome (drop (length (out s)) (out s'))) =
           Inr signals \<and>
         file_results signals =
           map (\<lambda>(p, d, device_id). (device_id, do_backup_to (backup_type d) (file_type f), f))
             (bd_devices (backup_devices s))))"
proof
  assume h: "backup_files (prefs s) \<and> backup_possible (backup_devices s) (file_type f)"
  define pre where "pre = (if \<not> thumbnail_is_null then [ThumbnailReceived f] else [])"
  define s2 where "s2 = emit s pre"
  have s2: "prefs s2 = prefs s" "backup_devices s2 = backup_devices s"
    "download_tracker s2 = download_tracker s" "out s2 = out s @ pre"
    by (simp_all add: s2_def emit_def)
  have p: "backup_requests pre = []" "backup_replies outcome pre = []"
    by (simp_all add: pre_def)
  have e: "fileRenamedAndMoved env s move_succeeded f download_count thumbnail_is_null =
             Inr (backupFile s2 f move_succeeded download_count)"
    using h by (simp add: fileRenamedAndMoved_def s2_def pre_def emit_def logError_def Let_def)
  from backupFile_requests [of f s2 move_succeeded download_count] obtain g where
    g: "\<And>d. bfd_rpd_file (g d) = f"
       "\<And>d. bfd_do_backup (g d) = do_backup_to (backup_type d) (file_type f)"
    and b: "backupFile s2 f move_succeeded download_count =
         emit s2 (map (\<lambda>(p, d, device_id). BackupFile device_id (g d))
                   (bd_devices (backup_devices s)))"
    using s2(2) by auto
  have d: "drop (length (out s)) (out (backupFile s2 f move_succeeded download_count)) =
             pre @ map (\<lambda>(p, d, device_id). BackupFile device_id (g d))
                     (bd_devices (backup_devices s))"
    by (simp add: b emit_def s2(4))
  have t: "download_tracker (backupFile s2 f move_succeeded download_count) = download_tracker s"
    by (simp add: b emit_def s2(3))
  have q: "backup_requests (drop (length (out s)) (out (backupFile s2 f move_succeeded download_count))) =
        map (\<lambda>(p, d, device_id). (device_id, f, do_backup_to (backup_type d) (file_type f)))
          (bd_devices (backup_devices s))"
    by (simp add: d backup_requests_append p backup_requests_map g)
  from backup_replies_signals [of outcome g "bd_devices (backup_devices s)"] obtain signals where
    "process_sink_data_each
       (backup_replies outcome (map (\<lambda>(p, d, device_id). BackupFile device_id (g d))
          (bd_devices (backup_devices s)))) = Inr signals"
    "file_results signals =
       map (\<lambda>(p, d, device_id). (device_id, bfd_do_backup (g d), bfd_rpd_file (g d)))
         (bd_devices (backup_devices s))"
    by blast
  then have r: "\<exists>signals.
         process_sink_data_each (backup_replies outcome
            (drop (length (out s)) (out (backupFile s2 f move_succeeded download_count)))) =
           Inr signals \<and>
         file_results signals =
           map (\<lambda>(p, d, device_id). (device_id, do_backup_to (backup_type d) (file_type f), f))
             (bd_devices (backup_devices s))"
    by (simp add: d backup_replies_append p g)
  from e q t r show "\<exists>s'. fileRenamedAndMoved env s move_succeeded f download_count thumbnail_is_null = Inr s' \<and>
      backup_requests (drop (length (out s)) (out s')) =
        map (\<lambda>(p, d, device_id). (device_id, f, do_backup_to (backup_type d) (file_type f)))
          (bd_devices (backup_devices s)) \<and>
      download_tracker s' = download_tracker s \<and>
      (\<exists>signals.
         process_sink_data_each (backup_replies outcome (drop (length (out s)) (out s'))) =
           Inr signals \<and>
         file_results signals =
           map (\<lambda>(p, d, device_id). (device_id, do_backup_to (backup_type d) (file_type f), f))
             (bd_devices (backup_devices s)))"
    by blast
qed

text \<open>
  A photo with two destinations, of which the second takes videos only; each worker
  reports one chunk of ten bytes and then its result.
\<close>

theorem backup_request_to_every_destination_witness:
  "backup_files (prefs example_backup_window) \<and>
   backup_possible (backup_devices example_backup_window) (file_type example_photo) \<and>
   (\<exists>s'. fileRenamedAndMoved example_env example_backup_window True example_photo 1 True = Inr s' \<and>
      backup_requests (out s') = [(0, example_photo, True), (1, example_photo, False)] \<and>
      (\<exists>signals.
         process_sink_data_each
           (backup_replies (\<lambda>device_id data. \<lparr>bo_progress = [(10, 10)], bo_succeeded = True\<rparr>)
              (out s')) = Inr signals \<and>
         file_results signals = [(0, True, example_photo), (1, False, example_photo)]))"
proof -
  have h1: "backup_files (prefs example_backup_window)"
    by (simp add: example_backup_window_def example_window_def example_prefs_def)
  have h2: "backup_possible (backup_devices example_backup_window) (file_type example_photo)"
    by (simp add: example_backup_window_def example_window_def example_photo_def
        backup_possible_def no_backup_devices_def backs_up_def)
  have o: "out example_backup_window = []"
    by (simp add: example_backup_window_def example_window_def)
  have m: "map (\<lambda>(p, d, device_id).
                 (device_id, example_photo, do_backup_to (backup_type d) (file_type example_photo)))
             (bd_devices (backup_devices example_backup_window)) =
           [(0, example_photo, True), (1, example_photo, False)]"
    "map (\<lambda>(p, d, device_id).
                 (device_id, do_backup_to (backup_type d) (file_type example_photo), example_photo))
             (bd_devices (backup_devices example_backup_window)) =
           [(0, True, example_photo), (1, False, example_photo)]"
    by (simp_all add: example_backup_window_def example_window_def example_photo_def do_backup_to_def)
  from backup_request_to_every_destination
    [of example_backup_window example_photo example_env True 1 True
        "\<lambda>device_id data. \<lparr>bo_progress = [(10, 10)], bo_succeeded = True\<rparr>"] h1 h2
  obtain s' signals where
    "fileRenamedAndMoved example_env example_backup_window True example_photo 1 True = Inr s'"
    "backup_requests (drop (length (out example_backup_window)) (out s')) =
       map (\<lambda>(p, d, device_id).
              (device_id, example_photo, do_backup_to (backup_type d) (file_type example_photo)))
         (bd_devices (backup_devices example_backup_window))"
    "process_sink_data_each
       (backup_replies (\<lambda>device_id data. \<lparr>bo_progress = [(10, 10)], bo_succeeded = True\<rparr>)
          (drop (length (out example_backup_window)) (out s'))) = Inr signals"
    "file_results signals =
       map (\<lambda>(p, d, device_id).
              (device_id, do_backup_to (backup_type d) (file_type example_photo), example_photo))
         (bd_devices (backup_devices example_backup_window))"
    by blast
  then have "fileRenamedAndMoved example_env example_backup_window True example_photo 1 True = Inr s' \<and>
      backup_requests (out s') = [(0, example_photo, True), (1, example_photo, False)] \<and>
      process_sink_data_each
        (backup_replies (\<lambda>device_id data. \<lparr>bo_progress = [(10, 10)], bo_succeeded = True\<rparr>)
           (out s')) = Inr signals \<and>
      file_results signals = [(0, True, example_photo), (1, False, example_photo)]"
    using o m by simp
  then show ?thesis using h1 h2 by blast
qed

subsection \<open>The job code prompt\<close>

lemma prompt_fields_emit [simp]: "prompt_fields (emit s as) = prompt_fields s"
  by (simp add: prompt_fields_def emit_def)

lemma prompt_fields_setDeviceState [simp]: "prompt_fields (setDeviceState s m sid st) = prompt_fields s"
  by (simp add: prompt_fields_def setDeviceState_def split: DeviceModelRef.split)

lemma then_do_Inr: "(then_do m f = Inr y) = (\<exists>x. m = Inr x \<and> f x = Inr y)"
  by (cases m) (simp_all add: then_do_def)

lemma then_do_InrE:
  assumes "then_do m f = Inr y"
  obtains x where "m = Inr x" "f x = Inr y"
  using assms by (auto simp: then_do_Inr)

lemma prompt_fields_downloadFiles_register [simp]:
  "prompt_fields (downloadFiles_register s m sid stats) = prompt_fields s"
  by (simp add: downloadFiles_register_def Let_def prompt_fields_def setDeviceState_def
      split: DeviceModelRef.split)

lemma downloadFiles_prompt_fields:
  assumes "downloadFiles env s fs sid stats g = Inr s'"
  shows "prompt_fields s' = prompt_fields s"
proof -
  from assms obtain m where
    "(let photo_folder = (if 0 < no_photos stats then Some (photo_download_folder (prefs s)) else None);
           video_folder = (if 0 < no_videos stats then Some (video_download_folder (prefs s)) else None);
           s4 = downloadFiles_register s m sid stats;
           generate' = (if auto_start_is_on s4 \<and> generate_thumbnails (prefs s4) then True else g)
       in case map_of (devices s4) sid of
            None \<Rightarrow> Inl (KeyError, s4)
          | Some device \<Rightarrow>
              Inr (emit (s4\<lparr>copyfiles_workers := List.insert sid (copyfiles_workers s4)\<rparr>)
                     [StartCopyWorker sid
                        \<lparr>cfa_scan_id = sid, cfa_device = device,
                         cfa_photo_download_folder = photo_folder,
                         cfa_video_download_folder = video_folder,
                         cfa_files = fs, cfa_verify_file = verify_file (prefs s4),
                         cfa_generate_thumbnails = generate'\<rparr>])) = Inr s'"
    unfolding downloadFiles_def by (rule then_do_InrE)
  then obtain args where
    "s' = emit ((downloadFiles_register s m sid stats)\<lparr>copyfiles_workers :=
                 List.insert sid (copyfiles_workers (downloadFiles_register s m sid stats))\<rparr>)
            [StartCopyWorker sid args]"
    by (cases "map_of (devices (downloadFiles_register s m sid stats)) sid") (auto simp: Let_def)
  then have "prompt_fields s' =
      prompt_fields ((downloadFiles_register s m sid stats)\<lparr>copyfiles_workers :=
                 List.insert sid (copyfiles_workers (downloadFiles_register s m sid stats))\<rparr>)"
    by simp
  also have "\<dots> = prompt_fields (downloadFiles_register s m sid stats)"
    by (simp add: prompt_fields_def)
  finally show ?thesis by simp
qed

lemma downloadFiles_each_prompt_fields:
  "downloadFiles_each env df s xs = Inr s' \<Longrightarrow> prompt_fields s' = prompt_fields s"
proof (induction xs arbitrary: s)
  case Nil
  then show ?case by simp
next
  case (Cons x xs)
  obtain sid fs where x: "x = (sid, fs)" by (cases x)
  from Cons.prems x obtain stats s1 where
    s1: "downloadFiles env s fs sid stats
           (if terminateThumbnailGeneration env sid then markThumbnailsNeeded env fs else False) = Inr s1"
    and rest: "downloadFiles_each env df s1 xs = Inr s'"
    by (auto simp: then_do_def Let_def split: option.splits sum.splits)
  from downloadFiles_prompt_fields [OF s1] Cons.IH [OF rest] show ?case by simp
qed

lemma startDownloadPhase2_prompt_fields:
  "startDownloadPhase2 env s = Inr s' \<Longrightarrow> prompt_fields s' = prompt_fields s"
proof -
  assume a: "startDownloadPhase2 env s = Inr s'"
  then obtain df s2 s3 where
    "downloadFiles_each env df s2 (files df) = Inr s3" "prompt_fields s2 = prompt_fields s"
    "s' = s3\<lparr>download_action_is_download := False\<rparr>"
    by (auto simp: startDownloadPhase2_def then_do_def Let_def log_error_def logError_def
        prompt_fields_def emit_def split: option.splits sum.splits if_splits)
  with downloadFiles_each_prompt_fields [of env df s2 "files df" s3] show ?thesis
    by (simp add: prompt_fields_def)
qed

lemma startDownload_prompt_fields:
  "startDownload env s sid_opt = Inr s' \<Longrightarrow> prompt_fields s' = prompt_fields s"
proof -
  assume a: "startDownload env s sid_opt = Inr s'"
  let ?s1 = "s\<lparr>download_files := Some (getFilesMarkedForDownload env sid_opt), camera_unmounts_needed := []\<rparr>"
  have p1: "prompt_fields ?s1 = prompt_fields s" by (simp add: prompt_fields_def)
  show ?thesis
  proof (cases "gvfsControlsMounts env")
    case False
    with a have "startDownloadPhase2 env ?s1 = Inr s'" by (simp add: startDownload_def Let_def)
    from startDownloadPhase2_prompt_fields [OF this] p1 show ?thesis by simp
  next
    case True
    with a obtain needed where
      n: "(if 0 < length needed
           then Inr (emit (?s1\<lparr>camera_unmounts_needed := needed\<rparr>)
                      (map (\<lambda>(model, port). UnmountCamera model port) needed))
           else startDownloadPhase2 env (?s1\<lparr>camera_unmounts_needed := needed\<rparr>)) = Inr s'"
      by (auto simp: startDownload_def Let_def then_do_def split: sum.splits)
    have p2: "prompt_fields (?s1\<lparr>camera_unmounts_needed := needed\<rparr>) = prompt_fields s"
      by (simp add: prompt_fields_def)
    show ?thesis
    proof (cases "0 < length needed")
      case True
      with n have "s' = emit (?s1\<lparr>camera_unmounts_needed := needed\<rparr>)
                      (map (\<lambda>(model, port). UnmountCamera model port) needed)" by simp
      then show ?thesis using p2 by simp
    next
      case False
      with n have "startDownloadPhase2 env (?s1\<lparr>camera_unmounts_needed := needed\<rparr>) = Inr s'" by simp
      from startDownloadPhase2_prompt_fields [OF this] p2 show ?thesis by simp
    qed
  qed
qed

lemma displayMessageInStatusBar_prompt_fields:
  "displayMessageInStatusBar env s b = Inr s' \<Longrightarrow> prompt_fields s' = prompt_fields s"
  by (auto simp: displayMessageInStatusBar_def then_do_def prompt_fields_def emit_def
      split: if_splits sum.splits)

lemma one_prompt_fields: "prompt_fields s' = prompt_fields s \<Longrightarrow> one_prompt s' = one_prompt s"
  by (simp add: prompt_fields_def one_prompt_def)

lemma one_prompt_open: "one_prompt s \<Longrightarrow> one_prompt (get_job_code_open s)"
  by (auto simp: one_prompt_def get_job_code_open_def emit_def)

lemma get_job_code_close_prompt_fields:
  "get_job_code_close env s r = Inr s' \<Longrightarrow> prompt_fields s' = (False, job_code_dialogs s - 1)"
proof (cases r)
  case Rejected
  assume "get_job_code_close env s r = Inr s'"
  with Rejected show ?thesis by (auto simp: get_job_code_close_def prompt_fields_def)
next
  case (Accepted code remember)
  assume a: "get_job_code_close env s r = Inr s'"
  show ?thesis
  proof (cases "code = []")
    case True
    with Accepted a show ?thesis by (auto simp: get_job_code_close_def prompt_fields_def)
  next
    case False
    show ?thesis
    proof (cases remember)
      case True
      with False Accepted a show ?thesis
        by (auto simp: get_job_code_close_def prompt_fields_def dest!: startDownload_prompt_fields)
    next
      case r: False
      with False Accepted a show ?thesis
        by (auto simp: get_job_code_close_def prompt_fields_def dest!: startDownload_prompt_fields)
    qed
  qed
qed

lemma one_prompt_close:
  assumes "one_prompt s" "get_job_code_close env s r = Inr s'"
  shows "one_prompt s'"
  using get_job_code_close_prompt_fields [OF assms(2)] assms(1)
  by (auto simp: prompt_fields_def one_prompt_def)

lemma one_prompt_after_scan:
  assumes "one_prompt s" "after_scan env s m sid = Inr s'"
  shows "one_prompt s'"
proof -
  have p4: "prompt_fields (setDeviceState s m sid scanned) = prompt_fields s"
    by simp
  have o4: "one_prompt (setDeviceState s m sid scanned)"
    using assms(1) one_prompt_fields [OF p4] by blast
  show ?thesis
  proof (cases "\<not> auto_start_is_on s \<and> generate_thumbnails (prefs s)")
    case True
    with assms(2) have "s' = emit (setDeviceState s m sid scanned) [ThumbnailGenerate sid]"
      by (simp add: after_scan_def)
    then have "prompt_fields s' = prompt_fields (setDeviceState s m sid scanned)"
      by simp
    from one_prompt_fields [OF this] o4 show ?thesis by blast
  next
    case False
    show ?thesis
    proof (cases "auto_start_is_on s")
      case a: True
      show ?thesis
      proof (cases "need_to_prompt_on_auto_start s")
        case True
        with a False assms(2) have "s' = get_job_code_open (setDeviceState s m sid scanned)"
          by (simp add: after_scan_def)
        then show ?thesis using one_prompt_open [OF o4] by blast
      next
        case n: False
        with a False assms(2) have "startDownload env s (Some sid) = Inr s'"
          by (simp add: after_scan_def)
        from one_prompt_fields [OF startDownload_prompt_fields [OF this]] assms(1)
        show ?thesis by blast
      qed
    next
      case a: False
      with False assms(2) have "s' = s" by (simp add: after_scan_def)
      then show ?thesis using assms(1) by blast
    qed
  qed
qed

lemma one_prompt_scanFinished:
  assumes "one_prompt s" "scanFinished env s sid = Inr s'"
  shows "one_prompt s'"
proof (cases "map_of (devices s) sid")
  case None
  with assms show ?thesis by (simp add: scanFinished_def)
next
  case (Some device)
  define s1 where "s1 = s\<lparr>download_tracker := (download_tracker s)\<lparr>file_types_present_by_scan_id :=
                         AList.update sid (file_type_counter device)
                           (file_types_present_by_scan_id (download_tracker s))\<rparr>\<rparr>"
  have p1: "prompt_fields s1 = prompt_fields s" by (simp add: s1_def prompt_fields_def)
  have "scanFinished env s sid = then_do (raising s1 (mapModel s1 sid)) (\<lambda>m.
              then_do (displayMessageInStatusBar env s1 True) (\<lambda>s2.
                after_scan env (emit s2 [OffloadWork]) m sid))"
    unfolding scanFinished_def s1_def using Some by (simp add: Let_def)
  with assms(2) have "then_do (raising s1 (mapModel s1 sid)) (\<lambda>m.
              then_do (displayMessageInStatusBar env s1 True) (\<lambda>s2.
                after_scan env (emit s2 [OffloadWork]) m sid)) = Inr s'"
    by simp
  then obtain m where
    "then_do (displayMessageInStatusBar env s1 True) (\<lambda>s2.
                after_scan env (emit s2 [OffloadWork]) m sid) = Inr s'"
    by (rule then_do_InrE)
  then obtain s2 where
    s2: "displayMessageInStatusBar env s1 True = Inr s2"
    and r: "after_scan env (emit s2 [OffloadWork]) m sid = Inr s'"
    by (rule then_do_InrE)
  have "prompt_fields (emit s2 [OffloadWork]) = prompt_fields s"
    using displayMessageInStatusBar_prompt_fields [OF s2] p1 by simp
  then have "one_prompt (emit s2 [OffloadWork])"
    using assms(1) one_prompt_fields [of "emit s2 [OffloadWork]" s] by simp
  from one_prompt_after_scan [OF this r] show ?thesis .
qed

lemma one_prompt_step:
  assumes "one_prompt s" "job_code_step env s ev = Inr s'"
  shows "one_prompt s'"
proof (cases ev)
  case GetJobCode
  with assms(2) have "s' = get_job_code_open s" by (simp add: job_code_step_def)
  then show ?thesis using one_prompt_open [OF assms(1)] by blast
next
  case (ScanFinished sid)
  with assms(2) have "scanFinished env s sid = Inr s'" by (simp add: job_code_step_def)
  from one_prompt_scanFinished [OF assms(1) this] show ?thesis .
next
  case (DialogClosed r)
  show ?thesis
  proof (cases "job_code_dialogs s = 0")
    case True
    with DialogClosed assms(2) have "s' = s" by (simp add: job_code_step_def)
    then show ?thesis using assms(1) by blast
  next
    case False
    with DialogClosed assms(2) have "get_job_code_close env s r = Inr s'"
      by (simp add: job_code_step_def)
    from one_prompt_close [OF assms(1) this] show ?thesis .
  qed
qed

lemma one_prompt_run:
  "one_prompt s \<Longrightarrow> job_code_run env s evs = Inr s' \<Longrightarrow> one_prompt s'"
proof (induction evs arbitrary: s)
  case Nil
  then show ?case by simp
next
  case (Cons ev evs)
  from Cons.prems(2) obtain s1 where
    s1: "job_code_step env s ev = Inr s1" and rest: "job_code_run env s1 evs = Inr s'"
    by (auto simp: then_do_def split: sum.splits)
  from one_prompt_step [OF Cons.prems(1) s1] have "one_prompt s1" .
  from Cons.IH [OF this rest] show ?case .
qed

lemma copy_workers_started_append:
  "copy_workers_started (xs @ ys) = copy_workers_started xs @ copy_workers_started ys"
  by (induction xs rule: copy_workers_started.induct) auto

lemma dialogs_opened_append:
  "dialogs_opened (xs @ ys) = dialogs_opened xs + dialogs_opened ys"
  by (induction xs rule: dialogs_opened.induct) auto

lemma displayMessageInStatusBar_out:
  assumes "displayMessageInStatusBar env s b = Inr s'"
  shows "out s' = out s @ [ShowMessage BasicStatus] \<and>
         auto_start_is_on s' = auto_start_is_on s \<and> prefs s' = prefs s \<and>
         job_code s' = job_code s \<and> need_job_code_for_naming s' = need_job_code_for_naming s \<and>
         active_downloads_by_scan_id s' = active_downloads_by_scan_id s"
  using assms
  by (auto simp: displayMessageInStatusBar_def then_do_Inr emit_def split: if_splits)

lemma scanFinished_waits:
  assumes "prompting_for_job_code s" "auto_start_is_on s" "need_to_prompt_on_auto_start s"
    and "scanFinished env s sid = Inr s'"
  shows "copy_workers_started (out s') = copy_workers_started (out s) \<and>
         dialogs_opened (out s') = dialogs_opened (out s) \<and>
         active_downloads_by_scan_id s' = active_downloads_by_scan_id s"
proof (cases "map_of (devices s) sid")
  case None
  with assms(4) show ?thesis by (simp add: scanFinished_def)
next
  case (Some device)
  define s1 where "s1 = s\<lparr>download_tracker := (download_tracker s)\<lparr>file_types_present_by_scan_id :=
                         AList.update sid (file_type_counter device)
                           (file_types_present_by_scan_id (download_tracker s))\<rparr>\<rparr>"
  have "scanFinished env s sid = then_do (raising s1 (mapModel s1 sid)) (\<lambda>m.
              then_do (displayMessageInStatusBar env s1 True) (\<lambda>s2.
                after_scan env (emit s2 [OffloadWork]) m sid))"
    unfolding scanFinished_def s1_def using Some by (simp add: Let_def)
  with assms(4) have "then_do (raising s1 (mapModel s1 sid)) (\<lambda>m.
              then_do (displayMessageInStatusBar env s1 True) (\<lambda>s2.
                after_scan env (emit s2 [OffloadWork]) m sid)) = Inr s'"
    by simp
  then obtain m where
    "then_do (displayMessageInStatusBar env s1 True) (\<lambda>s2.
                after_scan env (emit s2 [OffloadWork]) m sid) = Inr s'"
    by (rule then_do_InrE)
  then obtain s2 where
    s2: "displayMessageInStatusBar env s1 True = Inr s2"
    and r: "after_scan env (emit s2 [OffloadWork]) m sid = Inr s'"
    by (rule then_do_InrE)
  define s3 where "s3 = emit s2 [OffloadWork]"
  from displayMessageInStatusBar_out [OF s2] displayMessageInStatusBar_prompt_fields [OF s2]
  have f: "out s3 = out s @ [ShowMessage BasicStatus, OffloadWork]"
    "auto_start_is_on s3" "need_to_prompt_on_auto_start s3" "prompting_for_job_code s3"
    "active_downloads_by_scan_id s3 = active_downloads_by_scan_id s"
    using assms(1-3)
    by (simp_all add: s3_def s1_def emit_def need_to_prompt_on_auto_start_def prompt_fields_def)
  from r f(2,3) have "s' = get_job_code_open (setDeviceState s3 m sid scanned)"
    by (simp add: after_scan_def s3_def)
  moreover have "prompting_for_job_code (setDeviceState s3 m sid scanned)"
    using f(4) by (simp add: setDeviceState_def split: DeviceModelRef.split)
  ultimately have "s' = setDeviceState s3 m sid scanned"
    by (simp add: get_job_code_open_def)
  then have "out s' = out s3" "active_downloads_by_scan_id s' = active_downloads_by_scan_id s3"
    by (simp_all add: setDeviceState_def split: DeviceModelRef.split)
  with f(1,5) show ?thesis
    by (simp add: copy_workers_started_append dialogs_opened_append)
qed

text \<open>
  Claim C2. Start with no dialog executing and deliver any sequence of requests for
  a job code, scan-finished events and dialog results. Whenever the run returns, at
  most one dialog is executing, and \<^verbatim>\<open>prompting_for_job_code\<close> is set exactly
  then. A request that arrives while the flag is set returns the window unchanged;
  one that arrives while it is clear opens the one dialog. No request starts a copy
  worker or adds an active download. A device whose scan finishes while the prompt
  is open, with auto start on and no job code yet, opens no dialog and starts no
  download: downloads start in \<open>get_job_code_close\<close>, when the dialog has
  returned.
\<close>

theorem at_most_one_job_code_prompt:
  "job_code_dialogs s0 = 0 \<and> \<not> prompting_for_job_code s0 \<and> job_code_run env s0 evs = Inr s \<longrightarrow>
     job_code_dialogs s \<le> 1 \<and>
     (prompting_for_job_code s = (job_code_dialogs s = 1)) \<and>
     (prompting_for_job_code s \<longrightarrow> job_code_step env s GetJobCode = Inr s) \<and>
     (\<not> prompting_for_job_code s \<longrightarrow>
        job_code_dialogs (get_job_code_open s) = 1 \<and> prompting_for_job_code (get_job_code_open s)) \<and>
     copy_workers_started (out (get_job_code_open s)) = copy_workers_started (out s) \<and>
     active_downloads_by_scan_id (get_job_code_open s) = active_downloads_by_scan_id s \<and>
     (prompting_for_job_code s \<and> auto_start_is_on s \<and> need_to_prompt_on_auto_start s \<and>
      scanFinished env s sid = Inr s' \<longrightarrow>
        copy_workers_started (out s') = copy_workers_started (out s) \<and>
        dialogs_opened (out s') = dialogs_opened (out s) \<and>
        active_downloads_by_scan_id s' = active_downloads_by_scan_id s)"
proof
  assume a: "job_code_dialogs s0 = 0 \<and> \<not> prompting_for_job_code s0 \<and> job_code_run env s0 evs = Inr s"
  then have "one_prompt s0" by (simp add: one_prompt_def)
  with a have o: "one_prompt s" using one_prompt_run by blast
  have c: "copy_workers_started (xs @ [OpenJobCodeDialog]) = copy_workers_started xs" for xs
    by (simp add: copy_workers_started_append)
  from o have "job_code_dialogs s \<le> 1 \<and>
     (prompting_for_job_code s = (job_code_dialogs s = 1)) \<and>
     (prompting_for_job_code s \<longrightarrow> job_code_step env s GetJobCode = Inr s) \<and>
     (\<not> prompting_for_job_code s \<longrightarrow>
        job_code_dialogs (get_job_code_open s) = 1 \<and> prompting_for_job_code (get_job_code_open s)) \<and>
     copy_workers_started (out (get_job_code_open s)) = copy_workers_started (out s) \<and>
     active_downloads_by_scan_id (get_job_code_open s) = active_downloads_by_scan_id s"
    by (auto simp: one_prompt_def job_code_step_def get_job_code_open_def emit_def c)
  with scanFinished_waits [of s env sid s']
  show "job_code_dialogs s \<le> 1 \<and>
     (prompting_for_job_code s = (job_code_dialogs s = 1)) \<and>
     (prompting_for_job_code s \<longrightarrow> job_code_step env s GetJobCode = Inr s) \<and>
     (\<not> prompting_for_job_code s \<longrightarrow>
        job_code_dialogs (get_job_code_open s) = 1 \<and> prompting_for_job_code (get_job_code_open s)) \<and>
     copy_workers_started (out (get_job_code_open s)) = copy_workers_started (out s) \<and>
     active_downloads_by_scan_id (get_job_code_open s) = active_downloads_by_scan_id s \<and>
     (prompting_for_job_code s \<and> auto_start_is_on s \<and> need_to_prompt_on_auto_start s \<and>
      scanFinished env s sid = Inr s' \<longrightarrow>
        copy_workers_started (out s') = copy_workers_started (out s) \<and>
        dialogs_opened (out s') = dialogs_opened (out s) \<and>
        active_downloads_by_scan_id s' = active_downloads_by_scan_id s)"
    by blast
qed

text \<open>
  Two devices finish their scans with auto start on and a job code needed: one dialog
  is opened, no copy worker is started, and a further request changes nothing.
\<close>

theorem at_most_one_job_code_prompt_witness:
  "job_code_dialogs job_code_window = 0 \<and> \<not> prompting_for_job_code job_code_window \<and>
   (\<exists>s. job_code_run example_env job_code_window [ScanFinished 1, ScanFinished 2] = Inr s \<and>
      dialogs_opened (out s) = 1 \<and> copy_workers_started (out s) = [] \<and>
      job_code_dialogs s = 1 \<and> prompting_for_job_code s \<and>
      job_code_step example_env s GetJobCode = Inr s)"
proof -
  have h: "job_code_dialogs job_code_window = 0 \<and> \<not> prompting_for_job_code job_code_window"
    by (simp add: job_code_window_def example_window_def)
  have "\<exists>s. job_code_run example_env job_code_window [ScanFinished 1, ScanFinished 2] = Inr s \<and>
      dialogs_opened (out s) = 1 \<and> copy_workers_started (out s) = [] \<and> prompting_for_job_code s"
    by (simp add: job_code_window_def example_window_def example_env_def example_prefs_def
        example_device_def example_tracker_def job_code_step_def scanFinished_def then_do_def
        mapModel_def displayMessageInStatusBar_def generateBasicStatusMessage_def
        isValidDownloadDir_show_error_def emit_def Let_def after_scan_def
        need_to_prompt_on_auto_start_def get_job_code_open_def setDeviceState_def)
  then obtain s where
    r: "job_code_run example_env job_code_window [ScanFinished 1, ScanFinished 2] = Inr s"
    and o: "dialogs_opened (out s) = 1" "copy_workers_started (out s) = []"
    and p: "prompting_for_job_code s"
    by blast
  from at_most_one_job_code_prompt
    [of job_code_window example_env "[ScanFinished 1, ScanFinished 2]" s 1 s] h r p
  have "job_code_dialogs s = 1 \<and> job_code_step example_env s GetJobCode = Inr s"
    by blast
  with h r o p show ?thesis by blast
qed

subsection \<open>What stops a download from starting\<close>

lemma devices_downloadFiles_register [simp]:
  "devices (downloadFiles_register s m sid stats) = devices s"
  by (simp add: downloadFiles_register_def Let_def setDeviceState_def split: DeviceModelRef.split)

lemma out_downloadFiles_register [simp]:
  "out (downloadFiles_register s m sid stats) = out s"
  by (simp add: downloadFiles_register_def Let_def setDeviceState_def split: DeviceModelRef.split)

lemma downloadFiles_starts_worker:
  assumes "map_of (devices s) sid = Some d"
  shows "\<exists>s'. downloadFiles env s fs sid stats g = Inr s' \<and> devices s' = devices s \<and>
           copy_workers_started (out s') = copy_workers_started (out s) @ [sid]"
proof -
  from assms obtain m where m: "mapModel s sid = Inr m"
    by (simp add: mapModel_def)
  show ?thesis
    unfolding downloadFiles_def m then_do_def
    using assms by (simp add: Let_def emit_def copy_workers_started_append)
qed

lemma downloadFiles_each_starts_workers:
  assumes "list_all (\<lambda>(sid, fs). map_of (devices s) sid \<noteq> None \<and>
                                  map_of (download_stats df) sid \<noteq> None) xs"
  shows "\<exists>s'. downloadFiles_each env df s xs = Inr s' \<and> devices s' = devices s \<and>
           copy_workers_started (out s') = copy_workers_started (out s) @ map fst xs"
  using assms
proof (induction xs arbitrary: s)
  case Nil
  then show ?case by simp
next
  case (Cons x xs)
  obtain sid fs where x: "x = (sid, fs)" by (cases x)
  from Cons.prems x obtain d stats where
    d: "map_of (devices s) sid = Some d" and st: "map_of (download_stats df) sid = Some stats"
    by auto
  from downloadFiles_starts_worker [OF d] obtain s1 where
    s1: "downloadFiles env s fs sid stats
           (if terminateThumbnailGeneration env sid then markThumbnailsNeeded env fs else False) = Inr s1"
    and d1: "devices s1 = devices s"
    and o1: "copy_workers_started (out s1) = copy_workers_started (out s) @ [sid]"
    by blast
  from Cons.prems d1 have "list_all (\<lambda>(sid, fs). map_of (devices s1) sid \<noteq> None \<and>
                                  map_of (download_stats df) sid \<noteq> None) xs"
    by simp
  from Cons.IH [OF this] obtain s' where
    "downloadFiles_each env df s1 xs = Inr s'" "devices s' = devices s1"
    "copy_workers_started (out s') = copy_workers_started (out s1) @ map fst xs"
    by blast
  with s1 d1 o1 st x show ?case by (simp add: then_do_def Let_def)
qed

lemma invalidDownloadFolders_empty:
  "(invalidDownloadFolders env pr wanted \<noteq> []) =
     ((downloading_photos wanted \<and>
         \<not> (isdir env (photo_download_folder pr) \<and> access_w env (photo_download_folder pr))) \<or>
      (downloading_videos wanted \<and>
         \<not> (isdir env (video_download_folder pr) \<and> access_w env (video_download_folder pr))))"
  by (auto simp: invalidDownloadFolders_def isValidDownloadDir_def)

lemma startDownloadPhase2_starts_workers:
  assumes "download_files s = Some df"
    and "invalidDownloadFolders env (prefs s) (download_types df) = []"
    and "list_all (\<lambda>(sid, fs). map_of (devices s) sid \<noteq> None \<and>
                                  map_of (download_stats df) sid \<noteq> None) (files df)"
  shows "started_by (startDownloadPhase2 env s) =
           Inr (copy_workers_started (out s) @ map fst (files df))"
proof -
  define s0 where "s0 = (case backupDestinationsMissing s (download_types df) of
                             None \<Rightarrow> s | Some missing \<Rightarrow> logError s)"
  define s1 where "s1 = (case download_start_time s0 of
                             None \<Rightarrow> s0\<lparr>download_start_time := Some (now env)\<rparr>
                           | Some t \<Rightarrow> s0)"
  define s2 where "s2 = emit s1 [ThumbnailMarkDownloadPending (files df),
                                   EnablePrefsAndRefresh False,
                                   RenameMessage download_started]"
  have e: "startDownloadPhase2 env s =
             then_do (downloadFiles_each env df s2 (files df))
                      (\<lambda>s3. Inr (s3\<lparr>download_action_is_download := False\<rparr>))"
    unfolding s2_def s1_def s0_def using assms(1,2) by (simp add: startDownloadPhase2_def Let_def)
  have s0: "s0 = s" by (simp add: s0_def logError_def split: option.split)
  have d2: "devices s2 = devices s" "copy_workers_started (out s2) = copy_workers_started (out s)"
    by (simp_all add: s2_def s1_def s0 emit_def copy_workers_started_append split: option.split)
  from assms(3) d2(1) have "list_all (\<lambda>(sid, fs). map_of (devices s2) sid \<noteq> None \<and>
                                  map_of (download_stats df) sid \<noteq> None) (files df)"
    by simp
  from downloadFiles_each_starts_workers [OF this, of env] obtain s3 where
    "downloadFiles_each env df s2 (files df) = Inr s3"
    "copy_workers_started (out s3) = copy_workers_started (out s2) @ map fst (files df)"
    by blast
  with e d2(2) show ?thesis by (simp add: then_do_def started_by_def)
qed

text \<open>
  Claim C4, as the code has it. A download folder is invalid when it is not a
  directory or not writable, and it counts only for a file type that is being
  downloaded. With an invalid folder \<^verbatim>\<open>startDownloadPhase2\<close> leaves the window as
  it found it, however it ends: no state is changed and no copy worker is started.
  With valid folders it starts one copy worker for every device with marked files,
  in order, provided the devices are registered and have statistics; whether a
  backup destination is missing plays no part.
\<close>

theorem download_start_checks:
  "download_files s = Some df \<longrightarrow>
     ((invalidDownloadFolders env (prefs s) (download_types df) \<noteq> []) =
        ((downloading_photos (download_types df) \<and>
            \<not> (isdir env (photo_download_folder (prefs s)) \<and>
               access_w env (photo_download_folder (prefs s)))) \<or>
         (downloading_videos (download_types df) \<and>
            \<not> (isdir env (video_download_folder (prefs s)) \<and>
               access_w env (video_download_folder (prefs s)))))) \<and>
     (invalidDownloadFolders env (prefs s) (download_types df) \<noteq> [] \<longrightarrow>
        window_after (startDownloadPhase2 env s) = s \<and>
        copy_workers_started (out (window_after (startDownloadPhase2 env s))) =
          copy_workers_started (out s)) \<and>
     (invalidDownloadFolders env (prefs s) (download_types df) = [] \<and>
      list_all (\<lambda>(sid, fs). map_of (devices s) sid \<noteq> None \<and>
                             map_of (download_stats df) sid \<noteq> None) (files df) \<longrightarrow>
        started_by (startDownloadPhase2 env s) =
          Inr (copy_workers_started (out s) @ map fst (files df)))"
proof
  assume d: "download_files s = Some df"
  have b: "invalidDownloadFolders env (prefs s) (download_types df) \<noteq> [] \<longrightarrow>
        window_after (startDownloadPhase2 env s) = s \<and>
        copy_workers_started (out (window_after (startDownloadPhase2 env s))) =
          copy_workers_started (out s)"
    using d by (simp add: startDownloadPhase2_def log_error_def)
  from invalidDownloadFolders_empty [of env "prefs s" "download_types df"] b
    startDownloadPhase2_starts_workers [OF d, of env]
  show "((invalidDownloadFolders env (prefs s) (download_types df) \<noteq> []) =
        ((downloading_photos (download_types df) \<and>
            \<not> (isdir env (photo_download_folder (prefs s)) \<and>
               access_w env (photo_download_folder (prefs s)))) \<or>
         (downloading_videos (download_types df) \<and>
            \<not> (isdir env (video_download_folder (prefs s)) \<and>
               access_w env (video_download_folder (prefs s)))))) \<and>
     (invalidDownloadFolders env (prefs s) (download_types df) \<noteq> [] \<longrightarrow>
        window_after (startDownloadPhase2 env s) = s \<and>
        copy_workers_started (out (window_after (startDownloadPhase2 env s))) =
          copy_workers_started (out s)) \<and>
     (invalidDownloadFolders env (prefs s) (download_types df) = [] \<and>
      list_all (\<lambda>(sid, fs). map_of (devices s) sid \<noteq> None \<and>
                             map_of (download_stats df) sid \<noteq> None) (files df) \<longrightarrow>
        started_by (startDownloadPhase2 env s) =
          Inr (copy_workers_started (out s) @ map fst (files df)))"
    by blast
qed

text \<open>
  One photo to download from device 1: with the valid folder the copy worker of
  device 1 is started; with a folder that does not exist the window stays as it was
  and no copy worker is started.
\<close>

theorem download_start_checks_witness:
  "download_files missing_backup_window = Some example_download \<and>
   invalidDownloadFolders example_env (prefs missing_backup_window)
     (download_types example_download) = [] \<and>
   started_by (startDownloadPhase2 example_env missing_backup_window) = Inr [1] \<and>
   invalidDownloadFolders example_env (example_prefs\<lparr>photo_download_folder := ''/gone''\<rparr>)
     (download_types example_download) = [''/gone''] \<and>
   window_after (startDownloadPhase2 example_env
     (missing_backup_window\<lparr>prefs := example_prefs\<lparr>photo_download_folder := ''/gone''\<rparr>\<rparr>))
     = missing_backup_window\<lparr>prefs := example_prefs\<lparr>photo_download_folder := ''/gone''\<rparr>\<rparr> \<and>
   copy_workers_started (out (window_after (startDownloadPhase2 example_env
     (missing_backup_window\<lparr>prefs := example_prefs\<lparr>photo_download_folder := ''/gone''\<rparr>\<rparr>))))
     = []"
proof -
  let ?bad = "missing_backup_window\<lparr>prefs := example_prefs\<lparr>photo_download_folder := ''/gone''\<rparr>\<rparr>"
  have d: "download_files missing_backup_window = Some example_download"
    "download_files ?bad = Some example_download"
    by (simp_all add: missing_backup_window_def)
  have v: "invalidDownloadFolders example_env (prefs missing_backup_window)
             (download_types example_download) = []"
    by (simp add: missing_backup_window_def example_window_def example_prefs_def example_env_def
        example_download_def invalidDownloadFolders_def isValidDownloadDir_def)
  have i: "invalidDownloadFolders example_env (example_prefs\<lparr>photo_download_folder := ''/gone''\<rparr>)
             (download_types example_download) = [''/gone'']"
    by (simp add: example_prefs_def example_env_def example_download_def
        invalidDownloadFolders_def isValidDownloadDir_def)
  have r: "list_all (\<lambda>(sid, fs). map_of (devices missing_backup_window) sid \<noteq> None \<and>
                             map_of (download_stats example_download) sid \<noteq> None)
             (files example_download)"
    by (simp add: missing_backup_window_def example_window_def example_download_def)
  have o: "copy_workers_started (out missing_backup_window) @ map fst (files example_download) = [1]"
    "copy_workers_started (out ?bad) = []"
    by (simp_all add: missing_backup_window_def example_window_def example_download_def)
  from download_start_checks [of missing_backup_window example_download example_env] d(1) v r o(1)
  have a: "started_by (startDownloadPhase2 example_env missing_backup_window) = Inr [1]"
    by simp
  from download_start_checks [of ?bad example_download example_env] d(2) i o(2)
  have b: "window_after (startDownloadPhase2 example_env ?bad) = ?bad \<and>
           copy_workers_started (out (window_after (startDownloadPhase2 example_env ?bad))) = []"
    by simp
  from a b d(1) v i o(2) show ?thesis by simp
qed

text \<open>
  Claim C4 as stated fails for the missing backup destination. Backup and its
  autodetection are on, photos are to be downloaded and no destination takes photos:
  \<^verbatim>\<open>backupDestinationsMissing\<close> reports the photos, and the copy worker of device 1
  is started all the same.
\<close>

theorem missing_backup_destination_counterexample:
  "backup_files (prefs missing_backup_window) \<and>
   backup_device_autodetection (prefs missing_backup_window) \<and>
   download_files missing_backup_window = Some example_download \<and>
   backupDestinationsMissing missing_backup_window (download_types example_download)
     = Some (True, False) \<and>
   started_by (startDownloadPhase2 example_env missing_backup_window) = Inr [1]"
  by (simp add: missing_backup_window_def example_window_def example_prefs_def example_env_def
      example_device_def example_tracker_def example_photo_def example_download_def
      backupDestinationsMissing_def backup_possible_def no_backup_devices_def
      startDownloadPhase2_def invalidDownloadFolders_def isValidDownloadDir_def logError_def
      emit_def then_do_def downloadFiles_def downloadFiles_register_def mapModel_def
      setDeviceState_def init_stats_def no_photo_backup_devices_def no_video_backup_devices_def
      started_by_def Let_def)

subsection \<open>The whole download is over\<close>






lemma downloadIsRunning_frame:
  "active_downloads_by_scan_id s' = active_downloads_by_scan_id s \<Longrightarrow>
   backup_files (prefs s') = backup_files (prefs s) \<Longrightarrow>
   backups_performed_by_scan_id (download_tracker s') = backups_performed_by_scan_id (download_tracker s) \<Longrightarrow>
   no_backups_to_perform_by_scan_id (download_tracker s') = no_backups_to_perform_by_scan_id (download_tracker s) \<Longrightarrow>
   downloadIsRunning s' = downloadIsRunning s"
  by (simp add: downloadIsRunning_def all_files_backed_up_def)











subsection \<open>A file has been backed up everywhere\<close>















end
